theory Spec2Isabelle
  imports Main "HOL-Library.AList"
begin

section \<open>Errors and rows shared by the models\<close>

text \<open>
  Everything the TypeScript throws is a value of \<open>js_error\<close>.  An \<open>SfdxFalconError\<close>
  carries the error name given as the second constructor argument in the source and,
  when the source passes one, the error it wraps; message texts and debug namespaces
  are not kept.  \<open>NativeTypeError\<close> is the TypeError the JavaScript runtime itself
  raises (calling \<open>undefined\<close>, reading a property of \<open>undefined\<close>, iterating a
  value that is not iterable).  \<open>ForeignError\<close> stands for an error produced by a
  collaborator outside the modelled classes (the CSV reader, a derived class).
\<close>

datatype js_error =
    SfdxFalconError (errName: string) (errCause: "js_error option")
  | NativeTypeError
  | ForeignError string

text \<open>A parsed CSV row: column name and cell text, in column order.\<close>

type_synonym JsonMap = "(string \<times> string) list"

text \<open>\<open>String.prototype.startsWith\<close>.\<close>

definition startsWith :: "string \<Rightarrow> string \<Rightarrow> bool" where
  "startsWith s p = (take (length p) s = p)"

text \<open>
  \<open>Number.prototype.toString\<close> on a non-negative integer below \<open>10^21\<close>: the
  decimal digits, most significant first.
\<close>

definition digitChar :: "nat \<Rightarrow> char" where
  "digitChar d = ''0123456789'' ! d"

fun toString :: "nat \<Rightarrow> string" where
  "toString n =
     (if n < 10 then [digitChar n]
      else toString (n div 10) @ [digitChar (n mod 10)])"

declare toString.simps [simp del]

text \<open>Sequencing of two steps of which the first may throw.\<close>

definition andThen :: "js_error + 'a \<Rightarrow> ('a \<Rightarrow> js_error + 'b) \<Rightarrow> js_error + 'b" where
  "andThen r f = (case r of Inl e \<Rightarrow> Inl e | Inr v \<Rightarrow> f v)"
section \<open>Tm2Context (modules/tm-tools-objects/tm2-context.ts)\<close>

text \<open>
  Only the columns the class reads or writes are fields of the row records.  The two
  \<open>TerritoryDevNameMap\<close> maps hold references to the mapping objects of the
  \<open>territoryDevNameMappings\<close> array; a reference is the index of the object in
  that array.  A JavaScript \<open>Map\<close> is an association list in insertion order and
  \<open>Map.set\<close> is \<open>AList.update\<close>.  The private member \<open>_x\<close> of the source is
  the field \<open>x\<close>, except that \<open>_loaded\<close> is \<open>loaded_ctx\<close>.
\<close>

record Territory2Record =
  Id_t2 :: string
  DeveloperName :: string

record TerritoryDevNameMapping =
  territory2DevName :: string
  territory2ParentDevName :: string
  territory2Id :: string
  territory2ParentId :: string

record Tm2Context =
  objectTerritory2AssociationRecords :: "JsonMap list"
  territory2Records :: "Territory2Record list"
  territory2RecordsByDevName :: "(string \<times> Territory2Record) list"
  territory2RecordsById :: "(string \<times> Territory2Record) list"
  territoryDevNameMapByT2DevName :: "(string \<times> nat) list"
  territoryDevNameMapByT2Id :: "(string \<times> nat) list"
  territoryDevNameMappings :: "TerritoryDevNameMapping list"
  userTerritory2AssociationRecords :: "JsonMap list"
  loaded_ctx :: bool
  prepared :: bool
  updated :: bool

definition territory2RecordIdPrefix :: string where
  "territory2RecordIdPrefix = ''0MI''"

text \<open>The constructor: empty maps and arrays, all three flags false.\<close>

definition newTm2Context :: Tm2Context where
  "newTm2Context =
     \<lparr> objectTerritory2AssociationRecords = [],
       territory2Records = [],
       territory2RecordsByDevName = [],
       territory2RecordsById = [],
       territoryDevNameMapByT2DevName = [],
       territoryDevNameMapByT2Id = [],
       territoryDevNameMappings = [],
       userTerritory2AssociationRecords = [],
       loaded_ctx = False, prepared = False, updated = False \<rparr>"

definition buildT2RecordsByDevNameMap :: "Tm2Context \<Rightarrow> Tm2Context" where
  "buildT2RecordsByDevNameMap this =
     this\<lparr>territory2RecordsByDevName :=
       foldl (\<lambda>m r. AList.update (DeveloperName r) r m)
             (territory2RecordsByDevName this) (territory2Records this)\<rparr>"

definition buildT2RecordsByIdMap :: "Tm2Context \<Rightarrow> Tm2Context" where
  "buildT2RecordsByIdMap this =
     this\<lparr>territory2RecordsById :=
       foldl (\<lambda>m r. AList.update (Id_t2 r) r m)
             (territory2RecordsById this) (territory2Records this)\<rparr>"

definition buildTerritoryDevNameMapByT2DevName :: "Tm2Context \<Rightarrow> Tm2Context" where
  "buildTerritoryDevNameMapByT2DevName this =
     this\<lparr>territoryDevNameMapByT2DevName :=
       foldl (\<lambda>m (i, d). AList.update (territory2DevName d) i m)
             (territoryDevNameMapByT2DevName this)
             (enumerate 0 (territoryDevNameMappings this))\<rparr>"

definition buildTerritoryDevNameMapByT2Id :: "Tm2Context \<Rightarrow> Tm2Context" where
  "buildTerritoryDevNameMapByT2Id this =
     this\<lparr>territoryDevNameMapByT2Id :=
       foldl (\<lambda>m (i, d).
                if startsWith (territory2Id d) territory2RecordIdPrefix
                then AList.update (territory2Id d) i m else m)
             (territoryDevNameMapByT2Id this)
             (enumerate 0 (territoryDevNameMappings this))\<rparr>"

definition lookupTerritory2Id :: "Tm2Context \<Rightarrow> string \<Rightarrow> js_error + string" where
  "lookupTerritory2Id this devName =
     (if devName = [] then Inl (SfdxFalconError ''TypeError'' None)
      else case map_of (territory2RecordsByDevName this) devName of
             None \<Rightarrow> Inl (SfdxFalconError ''DeveloperNameNotFound'' None)
           | Some territory2Record \<Rightarrow> Inr (Id_t2 territory2Record))"

text \<open>
  The loop of \<open>updateRecordMaps\<close> over the mapping objects.  Each object is written
  in place, so when a lookup throws the objects before it keep what was written, and
  the object at which the parent lookup throws keeps its new \<open>territory2Id\<close>.  The
  result is the error thrown, if any, and the array as the loop leaves it.
\<close>

fun updateMappings ::
  "Tm2Context \<Rightarrow> TerritoryDevNameMapping list \<Rightarrow> js_error option \<times> TerritoryDevNameMapping list"
where
  "updateMappings this [] = (None, [])"
| "updateMappings this (d # ds) =
     (case lookupTerritory2Id this (territory2DevName d) of
        Inl e \<Rightarrow> (Some e, d # ds)
      | Inr i \<Rightarrow>
          (let d1 = d\<lparr>territory2Id := i\<rparr> in
           if territory2ParentDevName d1 \<noteq> [] then
             (case lookupTerritory2Id this (territory2ParentDevName d1) of
                Inl e \<Rightarrow> (Some e, d1 # ds)
              | Inr p \<Rightarrow>
                  (case updateMappings this ds of
                     (r, ds') \<Rightarrow> (r, d1\<lparr>territory2ParentId := p\<rparr> # ds')))
           else (case updateMappings this ds of (r, ds') \<Rightarrow> (r, d1 # ds'))))"

text \<open>
  \<open>updateRecordMaps\<close>.  The first argument is what \<open>csv.parseFile\<close> yields for the
  Territory2 file at the time of the call.  The result pairs the error thrown
  (\<open>None\<close> when the call returns) with the context as the call leaves it.
\<close>

definition updateRecordMaps ::
  "js_error + Territory2Record list \<Rightarrow> Tm2Context \<Rightarrow> js_error option \<times> Tm2Context"
where
  "updateRecordMaps territory2Csv this =
     (case territory2Csv of
        Inl csvParseError \<Rightarrow>
          (Some (SfdxFalconError ''CsvParsingError'' (Some csvParseError)), this)
      | Inr recs \<Rightarrow>
          (let this1 = this\<lparr>territory2Records := recs\<rparr> in
           if length (territory2Records this1) = 0
           then (Some (SfdxFalconError ''CsvFileEmpty'' None), this1)
           else
             (let this2 = buildT2RecordsByIdMap (buildT2RecordsByDevNameMap this1) in
              case updateMappings this2 (territoryDevNameMappings this2) of
                (Some e, ds) \<Rightarrow> (Some e, this2\<lparr>territoryDevNameMappings := ds\<rparr>)
              | (None, ds) \<Rightarrow>
                  (None, (buildTerritoryDevNameMapByT2Id
                            (this2\<lparr>territoryDevNameMappings := ds\<rparr>))\<lparr>updated := True\<rparr>))))"

text \<open>
  \<open>prepare\<close>, after the constructor: \<open>parseCsvFiles\<close> (a Territory2 file that cannot
  be read counts as empty, a mapping file that cannot be read is fatal), then
  \<open>buildRecordMaps\<close>.
\<close>

definition prepare ::
  "js_error + TerritoryDevNameMapping list \<Rightarrow> js_error + Territory2Record list
     \<Rightarrow> js_error + Tm2Context"
where
  "prepare tm1ToTm2DevnameMapCsv territory2Csv =
     (case tm1ToTm2DevnameMapCsv of
        Inl e \<Rightarrow> Inl e
      | Inr ds \<Rightarrow>
          (let this1 = newTm2Context\<lparr>territoryDevNameMappings := ds\<rparr>;
               this2 = this1\<lparr>territory2Records :=
                         (case territory2Csv of Inl e \<Rightarrow> [] | Inr recs \<Rightarrow> recs)\<rparr>;
               this3 = buildT2RecordsByIdMap (buildT2RecordsByDevNameMap
                         (buildTerritoryDevNameMapByT2Id
                            (buildTerritoryDevNameMapByT2DevName this2)))
           in Inr (this3\<lparr>prepared := True\<rparr>)))"

definition isUpdated :: "Tm2Context \<Rightarrow> js_error + bool" where
  "isUpdated this =
     (if updated this \<noteq> True then Inl (SfdxFalconError ''ObjectNotUpdated'' None)
      else Inr (updated this))"

definition getConvertedT2Id :: "Tm2Context \<Rightarrow> string \<Rightarrow> js_error + string" where
  "getConvertedT2Id this pendingT2Id =
     (if startsWith pendingT2Id ''T2ID_PENDING_'' \<noteq> True then Inr []
      else lookupTerritory2Id this (drop 13 pendingT2Id))"

text \<open>
  \<open>transformPendingT2Id\<close>.  The first argument is the receiver of the call: \<open>Some\<close>
  context when the method is called on a context, \<open>None\<close> when the function is called
  detached from it.  Detached, \<open>this\<close> is not a context and has no method
  \<open>isUpdated\<close>, so the first statement, \<open>this.isUpdated()\<close>, throws the TypeError of
  the runtime.  The source reads the column \<open>Territory2Id\<close>, but tests and writes the
  property \<open>territory2Id\<close>; an assignment to a property that the row does not have
  adds it after the existing ones, which is \<open>AList.update\<close>.  A cell of a parsed row is
  a string, so \<open>typeof data.Territory2Id !== 'string'\<close> holds exactly when the row has
  no such column, and \<open>data.territory2Id === null\<close> never does.
\<close>

definition transformPendingT2Id :: "Tm2Context option \<Rightarrow> JsonMap \<Rightarrow> js_error + JsonMap" where
  "transformPendingT2Id receiver data =
     (case receiver of
        None \<Rightarrow> Inl NativeTypeError
      | Some this \<Rightarrow>
     (case isUpdated this of
        Inl e \<Rightarrow> Inl e
      | Inr u \<Rightarrow>
          (case map_of data ''Territory2Id'' of
             None \<Rightarrow> Inl (SfdxFalconError ''TypeError'' None)
           | Some pending \<Rightarrow>
               if map_of data ''territory2Id'' = Some []
               then Inl (SfdxFalconError ''TypeError'' None)
               else (case getConvertedT2Id this pending of
                       Inl e \<Rightarrow> Inl e
                     | Inr t2Id \<Rightarrow>
                         Inr (if t2Id \<noteq> [] then AList.update ''territory2Id'' t2Id data
                              else data)))))"

text \<open>
  Modelled from the spec: \<open>csv.transformFile\<close> of modules/sfdx-falcon-util/csv, which is
  not among the sources.  Section 4.4 has the file streamed row by row, each row replaced
  by what the row handler returns; an error of the reader or of the handler ends the
  stream and is the error of the call.
\<close>

fun transformRows :: "(JsonMap \<Rightarrow> js_error + JsonMap) \<Rightarrow> JsonMap list \<Rightarrow> js_error + JsonMap list"
where
  "transformRows onRowData [] = Inr []"
| "transformRows onRowData (row # rows) =
     (case onRowData row of
        Inl e \<Rightarrow> Inl e
      | Inr row' \<Rightarrow>
          (case transformRows onRowData rows of
             Inl e \<Rightarrow> Inl e
           | Inr rows' \<Rightarrow> Inr (row' # rows')))"

definition transformFile ::
  "js_error + JsonMap list \<Rightarrow> (JsonMap \<Rightarrow> js_error + JsonMap) \<Rightarrow> js_error + JsonMap list"
where
  "transformFile file onRowData =
     (case file of Inl e \<Rightarrow> Inl e | Inr rows \<Rightarrow> transformRows onRowData rows)"

text \<open>
  \<open>buildUserT2AssociationRecords\<close>.  The first argument is the content of the
  intermediate UserTerritory2Association file.  The source puts the function
  \<open>this.transformPendingT2Id\<close> into the options object as \<open>onRowData\<close> without
  binding it to the context, so the reader calls it detached; the array is assigned only
  when the reader returns.
\<close>

definition buildUserT2AssociationRecords ::
  "js_error + JsonMap list \<Rightarrow> Tm2Context \<Rightarrow> js_error option \<times> Tm2Context"
where
  "buildUserT2AssociationRecords userTerritory2AssociationIntermediateCsv this =
     (if length (userTerritory2AssociationRecords this) \<noteq> 0
      then (Some (SfdxFalconError ''RecordBuildError'' None), this)
      else (case transformFile userTerritory2AssociationIntermediateCsv
                   (transformPendingT2Id None) of
              Inl e \<Rightarrow> (Some e, this)
            | Inr rows \<Rightarrow> (None, this\<lparr>userTerritory2AssociationRecords := rows\<rparr>)))"

definition buildObjectT2AssociationRecords :: "Tm2Context \<Rightarrow> js_error option \<times> Tm2Context" where
  "buildObjectT2AssociationRecords this =
     (if length (objectTerritory2AssociationRecords this) \<noteq> 0
      then (Some (SfdxFalconError ''RecordBuildError'' None), this)
      else (None, this))"

section \<open>SfdxFalconModel (packages/model/src/model.ts)\<close>

text \<open>
  The abstract class keeps its own members (\<open>trapErrors\<close>, \<open>_state\<close>, \<open>_errors\<close>,
  \<open>_buildOpts\<close>, \<open>_loadOpts\<close>); whatever the derived class adds is the field
  \<open>derived\<close>.  The abstract methods \<open>_build\<close> and \<open>_load\<close> are the fields
  \<open>build_impl\<close> and \<open>load_impl\<close> of a \<open>ModelClass\<close>: given the options and the
  derived members they settle, as a promise does, to \<open>Resolved b\<close> or to
  \<open>Rejected e\<close>, and leave the derived members changed.  The functions of
  \<open>TypeValidator\<close>, which is not among the sources, are fields of the
  \<open>ModelClass\<close> as well: each yields the error it throws, if any.  \<open>emptyObject\<close>
  is the object literal \<open>{}\<close>.  An optional argument is an \<open>option\<close>.
\<close>

record ModelState =
  built :: bool
  loaded :: bool
  failed :: bool
  ready :: bool
  stale :: bool

datatype hook_outcome = Resolved bool | Rejected js_error

record ('o, 'd) SfdxFalconModel =
  trapErrors :: bool
  state :: ModelState
  errors :: "js_error list"
  buildOpts :: 'o
  loadOpts :: 'o
  derived :: 'd

record ('o, 'd) ModelClass =
  build_impl :: "'o \<Rightarrow> 'd \<Rightarrow> hook_outcome \<times> 'd"
  load_impl :: "'o \<Rightarrow> 'd \<Rightarrow> hook_outcome \<times> 'd"
  emptyObject :: 'o
  throwOnEmptyNullInvalidObject :: "'o \<Rightarrow> js_error option"
  throwOnNullInvalidObject :: "'o \<Rightarrow> js_error option"

text \<open>The constructor; its argument is \<open>opts.trapErrors\<close>.\<close>

definition newSfdxFalconModel ::
  "('o, 'd) ModelClass \<Rightarrow> bool option \<Rightarrow> 'd \<Rightarrow> ('o, 'd) SfdxFalconModel"
where
  "newSfdxFalconModel cls optsTrapErrors d =
     \<lparr> trapErrors = (case optsTrapErrors of Some b \<Rightarrow> b | None \<Rightarrow> False),
       state = \<lparr>built = False, loaded = False, failed = False, ready = False, stale = False\<rparr>,
       errors = [],
       buildOpts = emptyObject cls,
       loadOpts = emptyObject cls,
       derived = d \<rparr>"

text \<open>
  The \<open>.then(\<dots>).catch(\<dots>)\<close> pair that \<open>build\<close> and the build branch of
  \<open>refresh\<close> attach to the promise of \<open>_build\<close>, followed by
  \<open>return this._state\<close>.  A promise resolved with \<open>false\<close> makes the first
  handler throw a BuildError, which the second handler catches like a rejection.
\<close>

definition buildHandlers ::
  "hook_outcome \<Rightarrow> ('o, 'd) SfdxFalconModel
     \<Rightarrow> (js_error + ModelState) \<times> ('o, 'd) SfdxFalconModel"
where
  "buildHandlers outcome this =
     (case (case outcome of
              Resolved success \<Rightarrow>
                if success then None else Some (SfdxFalconError ''BuildError'' None)
            | Rejected e \<Rightarrow> Some e) of
        None \<Rightarrow>
          (let this' = this\<lparr>state := (state this)\<lparr>built := True, ready := True,
                              loaded := False, failed := False, stale := False\<rparr>\<rparr>
           in (Inr (state this'), this'))
      | Some buildError \<Rightarrow>
          (let caughtError = SfdxFalconError ''BuildError'' (Some buildError);
               this' = this\<lparr>state := (state this)\<lparr>failed := True, built := False,
                              ready := False, loaded := False, stale := False\<rparr>,
                            errors := errors this @ [caughtError]\<rparr>
           in if trapErrors this' \<noteq> True then (Inl caughtError, this')
              else (Inr (state this'), this')))"

definition loadHandlers ::
  "hook_outcome \<Rightarrow> ('o, 'd) SfdxFalconModel
     \<Rightarrow> (js_error + ModelState) \<times> ('o, 'd) SfdxFalconModel"
where
  "loadHandlers outcome this =
     (case (case outcome of
              Resolved success \<Rightarrow>
                if success then None else Some (SfdxFalconError ''LoadingError'' None)
            | Rejected e \<Rightarrow> Some e) of
        None \<Rightarrow>
          (let this' = this\<lparr>state := (state this)\<lparr>loaded := True, ready := True,
                              built := False, failed := False, stale := False\<rparr>\<rparr>
           in (Inr (state this'), this'))
      | Some loadingError \<Rightarrow>
          (let caughtError = SfdxFalconError ''LoadingError'' (Some loadingError);
               this' = this\<lparr>state := (state this)\<lparr>failed := True, loaded := False,
                              ready := False, built := False, stale := False\<rparr>,
                            errors := errors this @ [caughtError]\<rparr>
           in if trapErrors this' \<noteq> True then (Inl caughtError, this')
              else (Inr (state this'), this')))"

definition build ::
  "('o, 'd) ModelClass \<Rightarrow> 'o option \<Rightarrow> ('o, 'd) SfdxFalconModel
     \<Rightarrow> (js_error + ModelState) \<times> ('o, 'd) SfdxFalconModel"
where
  "build cls opts this =
     (if ready (state this) then (Inl (SfdxFalconError ''BuildError'' None), this)
      else
        (case (case opts of
                 Some given \<Rightarrow>
                   (case throwOnEmptyNullInvalidObject cls given of
                      Some e \<Rightarrow> Inl e | None \<Rightarrow> Inr given)
               | None \<Rightarrow> Inr (emptyObject cls)) of
           Inl e \<Rightarrow> (Inl e, this)
         | Inr opts' \<Rightarrow>
             (let this1 = this\<lparr>buildOpts := opts'\<rparr> in
              case build_impl cls opts' (derived this1) of
                (outcome, d') \<Rightarrow> buildHandlers outcome (this1\<lparr>derived := d'\<rparr>))))"

definition load ::
  "('o, 'd) ModelClass \<Rightarrow> 'o option \<Rightarrow> ('o, 'd) SfdxFalconModel
     \<Rightarrow> (js_error + ModelState) \<times> ('o, 'd) SfdxFalconModel"
where
  "load cls opts this =
     (if ready (state this) then (Inl (SfdxFalconError ''LoadingError'' None), this)
      else
        (case (case opts of
                 Some given \<Rightarrow>
                   (case throwOnEmptyNullInvalidObject cls given of
                      Some e \<Rightarrow> Inl e | None \<Rightarrow> Inr given)
               | None \<Rightarrow> Inr (emptyObject cls)) of
           Inl e \<Rightarrow> (Inl e, this)
         | Inr opts' \<Rightarrow>
             (let this1 = this\<lparr>loadOpts := opts'\<rparr> in
              case load_impl cls opts' (derived this1) of
                (outcome, d') \<Rightarrow> loadHandlers outcome (this1\<lparr>derived := d'\<rparr>))))"

text \<open>
  \<open>refresh\<close>.  The build branch returns inside its \<open>if\<close>.  The load branch awaits
  \<open>this._load(this._loadOpts).then().catch()\<close>: handlers without arguments pass a
  rejection on, so a rejected promise makes \<open>refresh\<close> throw that error; otherwise
  control leaves the \<open>if\<close> and reaches the unconditional \<open>throw\<close> of the error
  named ERROR_NAME.  The statements after that \<open>throw\<close> are never reached.
\<close>

definition refresh ::
  "('o, 'd) ModelClass \<Rightarrow> ('o, 'd) SfdxFalconModel
     \<Rightarrow> (js_error + ModelState) \<times> ('o, 'd) SfdxFalconModel"
where
  "refresh cls this =
     (if ready (state this) \<noteq> True then (Inl (SfdxFalconError ''RefreshError'' None), this)
      else if built (state this) then
        (case throwOnNullInvalidObject cls (buildOpts this) of
           Some e \<Rightarrow> (Inl e, this)
         | None \<Rightarrow>
             (case build_impl cls (buildOpts this) (derived this) of
                (outcome, d') \<Rightarrow> buildHandlers outcome (this\<lparr>derived := d'\<rparr>)))
      else if loaded (state this) then
        (case throwOnNullInvalidObject cls (loadOpts this) of
           Some e \<Rightarrow> (Inl e, this)
         | None \<Rightarrow>
             (case load_impl cls (loadOpts this) (derived this) of
                (Rejected e, d') \<Rightarrow> (Inl e, this\<lparr>derived := d'\<rparr>)
              | (Resolved success, d') \<Rightarrow>
                  (Inl (SfdxFalconError ''ERROR_NAME'' None), this\<lparr>derived := d'\<rparr>)))
      else (Inl (SfdxFalconError ''ERROR_NAME'' None), this))"

definition isReady :: "('o, 'd) SfdxFalconModel \<Rightarrow> js_error + bool" where
  "isReady this =
     (if ready (state this) \<noteq> True then Inl (SfdxFalconError ''ModelNotReady'' None)
      else Inr (ready (state this)))"

section \<open>Tm1Context (modules/tm-tools-objects/tm1-context.ts)\<close>

subsection \<open>The JavaScript values that the XML conversion yields\<close>

text \<open>
  \<open>convert.xml2js\<close> of the package xml-js is outside the repository; the parser below
  works on the value it returns.  In compact mode an element is an object whose keys are
  the names of its child elements, in document order, with the text under \<open>_text\<close>, and
  a name that occurs several times has the array of the elements as its value.
\<close>

datatype jsval =
    JsUndefined
  | JsString string
  | JsNumber int
  | JsBool bool
  | JsObject "(string \<times> jsval) list"
  | JsArray "jsval list"

fun truthy :: "jsval \<Rightarrow> bool" where
  "truthy JsUndefined = False"
| "truthy (JsString s) = (s \<noteq> [])"
| "truthy (JsNumber n) = (n \<noteq> 0)"
| "truthy (JsBool b) = b"
| "truthy (JsObject ps) = True"
| "truthy (JsArray xs) = True"

text \<open>\<open>typeof v === 'object'\<close>.\<close>

fun typeofObject :: "jsval \<Rightarrow> bool" where
  "typeofObject (JsObject ps) = True"
| "typeofObject (JsArray xs) = True"
| "typeofObject v = False"

text \<open>
  \<open>v[k]\<close>: reading a property of \<open>undefined\<close> throws; an array and a string have
  \<open>length\<close> and their indices; every other property that is not there reads as
  \<open>undefined\<close>.
\<close>

fun getProp :: "jsval \<Rightarrow> string \<Rightarrow> js_error + jsval" where
  "getProp JsUndefined k = Inl NativeTypeError"
| "getProp (JsObject ps) k = Inr (case map_of ps k of Some v \<Rightarrow> v | None \<Rightarrow> JsUndefined)"
| "getProp (JsArray xs) k =
     Inr (if k = ''length'' then JsNumber (int (length xs))
          else case find (\<lambda>i. toString i = k) [0..<length xs] of
                 Some i \<Rightarrow> xs ! i | None \<Rightarrow> JsUndefined)"
| "getProp (JsString s) k =
     Inr (if k = ''length'' then JsNumber (int (length s))
          else case find (\<lambda>i. toString i = k) [0..<length s] of
                 Some i \<Rightarrow> JsString [s ! i] | None \<Rightarrow> JsUndefined)"
| "getProp (JsNumber n) k = Inr JsUndefined"
| "getProp (JsBool b) k = Inr JsUndefined"

text \<open>\<open>Object.keys(v)[0]\<close> for a value with \<open>typeof v === 'object'\<close>.\<close>

fun firstKey :: "jsval \<Rightarrow> string option" where
  "firstKey (JsObject ps) = (case ps of [] \<Rightarrow> None | p # ps' \<Rightarrow> Some (fst p))"
| "firstKey (JsArray xs) = (case xs of [] \<Rightarrow> None | x # xs' \<Rightarrow> Some ''0'')"
| "firstKey v = None"

text \<open>
  The values a \<open>for \<dots> of\<close> loop runs over: the elements of an array, the characters of
  a string; any other value is not iterable and the loop throws.
\<close>

fun iterate :: "jsval \<Rightarrow> js_error + jsval list" where
  "iterate (JsArray xs) = Inr xs"
| "iterate (JsString s) = Inr (map (\<lambda>c. JsString [c]) s)"
| "iterate v = Inl NativeTypeError"

text \<open>\<open>Array.isArray\<close>.\<close>

fun isArray :: "jsval \<Rightarrow> bool" where
  "isArray (JsArray xs) = True"
| "isArray v = False"

subsection \<open>parseSharingRulesFromXml\<close>

record SharingGroup =
  groupType :: jsval
  groupMembers :: jsval

record FilterItem =
  field :: jsval
  operation :: jsval
  value_item :: jsval
  valueField :: jsval

record AccountSettings =
  caseAccessLevel :: jsval
  contactAccessLevel :: jsval
  opportunityAccessLevel :: jsval

text \<open>
  One record for the three kinds of object literal the parser pushes.  A property that
  the literal of a kind does not have (\<open>sharedFrom\<close> of a criteria rule,
  \<open>criteriaItems\<close> of the other two) is \<open>None\<close>, and so is a group that the
  extraction returns as \<open>undefined\<close>.
\<close>

record SharingRule =
  fullName :: jsval
  accessLevel :: jsval
  accountSettings :: AccountSettings
  description :: jsval
  label :: jsval
  sharedFrom :: "SharingGroup option"
  sharedTo :: "SharingGroup option"
  booleanFilter :: jsval
  criteriaItems :: "FilterItem list option"

record SharingRules =
  sharingCriteriaRules :: "SharingRule list"
  sharingOwnerRules :: "SharingRule list"
  sharingTerritoryRules :: "SharingRule list"

text \<open>
  The closure \<open>isTerritoryRelated\<close>.  \<open>groupIsTerritory r side\<close> is one of its two
  disjuncts, with \<open>side\<close> being \<open>sharedTo\<close> or \<open>sharedFrom\<close>; the operators
  \<open>&&\<close> and \<open>||\<close> evaluate their right operand only when needed.
\<close>

definition groupIsTerritory :: "jsval \<Rightarrow> string \<Rightarrow> js_error + bool" where
  "groupIsTerritory sharingRuleToTest side =
     (if \<not> typeofObject sharingRuleToTest then Inr False
      else andThen (getProp sharingRuleToTest side) (\<lambda>g.
        if \<not> truthy g then Inr False
        else andThen (getProp g ''territory'') (\<lambda>t.
          if truthy t then Inr True
          else andThen (getProp g ''territoryAndSubordinates'') (\<lambda>ts. Inr (truthy ts)))))"

definition isTerritoryRelated :: "jsval \<Rightarrow> js_error + bool" where
  "isTerritoryRelated sharingRuleToTest =
     andThen (groupIsTerritory sharingRuleToTest ''sharedTo'') (\<lambda>b.
       if b then Inr True else groupIsTerritory sharingRuleToTest ''sharedFrom'')"

text \<open>
  The closures \<open>extractSharedFromGroup\<close> and \<open>extractSharedToGroup\<close>, which differ in
  the property they read only.  A missing first key reads the property named
  \<open>undefined\<close>.
\<close>

definition extractSharedGroup :: "string \<Rightarrow> jsval \<Rightarrow> js_error + SharingGroup option" where
  "extractSharedGroup side sharingRule =
     (if \<not> typeofObject sharingRule then Inr None
      else andThen (getProp sharingRule side) (\<lambda>g.
        if \<not> typeofObject g then Inr None
        else andThen (getProp g (case firstKey g of Some k \<Rightarrow> k | None \<Rightarrow> ''undefined'')) (\<lambda>m.
          andThen (getProp m ''_text'') (\<lambda>t.
            Inr (Some \<lparr> groupType = (case firstKey g of Some k \<Rightarrow> JsString k
                                                        | None \<Rightarrow> JsUndefined),
                         groupMembers = t \<rparr>)))))"

definition extractSharedFromGroup :: "jsval \<Rightarrow> js_error + SharingGroup option" where
  "extractSharedFromGroup = extractSharedGroup ''sharedFrom''"

definition extractSharedToGroup :: "jsval \<Rightarrow> js_error + SharingGroup option" where
  "extractSharedToGroup = extractSharedGroup ''sharedTo''"

text \<open>The expression \<open>r[k] ? r[k]['_text'] : undefined\<close>.\<close>

definition textOf :: "jsval \<Rightarrow> string \<Rightarrow> js_error + jsval" where
  "textOf r k =
     andThen (getProp r k) (\<lambda>v. if truthy v then getProp v ''_text'' else Inr JsUndefined)"

text \<open>
  The expression
  \<open>(r['accountSettings'] && r['accountSettings'][k]) ? r['accountSettings'][k]['_text'] : undefined\<close>.
\<close>

definition settingOf :: "jsval \<Rightarrow> string \<Rightarrow> js_error + jsval" where
  "settingOf r k =
     andThen (getProp r ''accountSettings'') (\<lambda>a.
       if \<not> truthy a then Inr JsUndefined
       else andThen (getProp a k) (\<lambda>v.
         if truthy v then getProp v ''_text'' else Inr JsUndefined))"

definition accountSettingsOf :: "jsval \<Rightarrow> js_error + AccountSettings" where
  "accountSettingsOf r =
     andThen (settingOf r ''caseAccessLevel'') (\<lambda>c.
     andThen (settingOf r ''contactAccessLevel'') (\<lambda>n.
     andThen (settingOf r ''opportunityAccessLevel'') (\<lambda>p.
       Inr \<lparr>caseAccessLevel = c, contactAccessLevel = n, opportunityAccessLevel = p\<rparr>)))"

definition filterItemOf :: "jsval \<Rightarrow> js_error + FilterItem" where
  "filterItemOf criteriaItemJson =
     andThen (textOf criteriaItemJson ''field'') (\<lambda>f.
     andThen (textOf criteriaItemJson ''operation'') (\<lambda>p.
     andThen (textOf criteriaItemJson ''value'') (\<lambda>v.
     andThen (textOf criteriaItemJson ''valueField'') (\<lambda>w.
       Inr \<lparr>field = f, operation = p, value_item = v, valueField = w\<rparr>))))"

fun mapThrowing :: "('a \<Rightarrow> js_error + 'b) \<Rightarrow> 'a list \<Rightarrow> js_error + 'b list" where
  "mapThrowing f [] = Inr []"
| "mapThrowing f (x # xs) =
     andThen (f x) (\<lambda>y. andThen (mapThrowing f xs) (\<lambda>ys. Inr (y # ys)))"

text \<open>
  The body of the loop over the criteria rules: \<open>None\<close> when the rule is not related to
  a territory and nothing is pushed.  The criteria items are normalised to an array
  first.  The properties of the pushed literal are evaluated in the order written.
\<close>

definition criteriaRuleOf :: "jsval \<Rightarrow> js_error + SharingRule option" where
  "criteriaRuleOf sharingCriteriaRule =
     andThen (isTerritoryRelated sharingCriteriaRule) (\<lambda>related.
       if \<not> related then Inr None
       else
         andThen (getProp sharingCriteriaRule ''criteriaItems'') (\<lambda>criteriaItemsJson.
         andThen (iterate (if isArray criteriaItemsJson \<noteq> True then JsArray [criteriaItemsJson]
                           else criteriaItemsJson)) (\<lambda>items.
         andThen (mapThrowing filterItemOf items) (\<lambda>criteriaItems'.
         andThen (textOf sharingCriteriaRule ''fullName'') (\<lambda>fn.
         andThen (textOf sharingCriteriaRule ''accessLevel'') (\<lambda>al.
         andThen (accountSettingsOf sharingCriteriaRule) (\<lambda>as.
         andThen (textOf sharingCriteriaRule ''description'') (\<lambda>de.
         andThen (textOf sharingCriteriaRule ''label'') (\<lambda>la.
         andThen (extractSharedToGroup sharingCriteriaRule) (\<lambda>st.
         andThen (textOf sharingCriteriaRule ''booleanFilter'') (\<lambda>bf.
           Inr (Some \<lparr> fullName = fn, accessLevel = al, accountSettings = as,
                        description = de, label = la, sharedFrom = None, sharedTo = st,
                        booleanFilter = bf, criteriaItems = Some criteriaItems' \<rparr>))))))))))))"

text \<open>The body of the loops over the owner rules and over the territory rules.\<close>

definition ownerRuleOf :: "jsval \<Rightarrow> js_error + SharingRule option" where
  "ownerRuleOf sharingOwnerRule =
     andThen (isTerritoryRelated sharingOwnerRule) (\<lambda>related.
       if \<not> related then Inr None
       else
         andThen (textOf sharingOwnerRule ''fullName'') (\<lambda>fn.
         andThen (textOf sharingOwnerRule ''accessLevel'') (\<lambda>al.
         andThen (accountSettingsOf sharingOwnerRule) (\<lambda>as.
         andThen (textOf sharingOwnerRule ''description'') (\<lambda>de.
         andThen (textOf sharingOwnerRule ''label'') (\<lambda>la.
         andThen (extractSharedFromGroup sharingOwnerRule) (\<lambda>sf.
         andThen (extractSharedToGroup sharingOwnerRule) (\<lambda>st.
         andThen (textOf sharingOwnerRule ''booleanFilter'') (\<lambda>bf.
           Inr (Some \<lparr> fullName = fn, accessLevel = al, accountSettings = as,
                        description = de, label = la, sharedFrom = sf, sharedTo = st,
                        booleanFilter = bf, criteriaItems = None \<rparr>))))))))))"

definition territoryRuleOf :: "jsval \<Rightarrow> js_error + SharingRule option" where
  "territoryRuleOf sharingTerritoryRule = ownerRuleOf sharingTerritoryRule"

text \<open>A loop that pushes what its body yields, if anything.\<close>

fun collectRules :: "(jsval \<Rightarrow> js_error + SharingRule option) \<Rightarrow> jsval list \<Rightarrow> js_error + SharingRule list"
where
  "collectRules body [] = Inr []"
| "collectRules body (r # rs) =
     andThen (body r) (\<lambda>pushed.
       andThen (collectRules body rs) (\<lambda>rest.
         Inr (case pushed of Some rule \<Rightarrow> rule # rest | None \<Rightarrow> rest)))"

text \<open>
  The three branches.  In the criteria branch the statement under
  \<open>Array.isArray(sharingCriteriaRules) !== true\<close> assigns the same value again, so both
  arms of the conditional are the value itself; the other two branches wrap a value that
  is not an array into an array of one element.
\<close>

definition parseCriteriaRules :: "jsval \<Rightarrow> js_error + SharingRule list" where
  "parseCriteriaRules sharingRules =
     andThen (getProp sharingRules ''sharingCriteriaRules'') (\<lambda>v.
       if \<not> truthy v then Inr []
       else andThen (iterate (if isArray v \<noteq> True then v else v))
              (collectRules criteriaRuleOf))"

definition parseOwnerRules :: "jsval \<Rightarrow> js_error + SharingRule list" where
  "parseOwnerRules sharingRules =
     andThen (getProp sharingRules ''sharingOwnerRules'') (\<lambda>v.
       if \<not> truthy v then Inr []
       else andThen (iterate (if isArray v \<noteq> True then JsArray [v] else v))
              (collectRules ownerRuleOf))"

definition parseTerritoryRules :: "jsval \<Rightarrow> js_error + SharingRule list" where
  "parseTerritoryRules sharingRules =
     andThen (getProp sharingRules ''sharingTerritoryRules'') (\<lambda>v.
       if \<not> truthy v then Inr []
       else andThen (iterate (if isArray v \<noteq> True then JsArray [v] else v))
              (collectRules territoryRuleOf))"

text \<open>
  \<open>parseSharingRulesFromXml\<close>; its first argument is \<open>convert.xml2js\<close> with the options
  the source sets.
\<close>

definition parseSharingRulesFromXml ::
  "(string \<Rightarrow> js_error + jsval) \<Rightarrow> string \<Rightarrow> js_error + SharingRules"
where
  "parseSharingRulesFromXml xml2js sharingRulesXml =
     (if sharingRulesXml = [] then Inl (SfdxFalconError ''TypeError'' None)
      else
        andThen (xml2js sharingRulesXml) (\<lambda>sharingRulesJson.
        andThen (getProp sharingRulesJson ''SharingRules'') (\<lambda>sharingRules.
          if \<not> typeofObject sharingRules
          then Inl (SfdxFalconError ''Xml2JsonParsingError'' None)
          else
            andThen (parseCriteriaRules sharingRules) (\<lambda>cs.
            andThen (parseOwnerRules sharingRules) (\<lambda>os.
            andThen (parseTerritoryRules sharingRules) (\<lambda>ts.
              Inr \<lparr> sharingCriteriaRules = cs, sharingOwnerRules = os,
                     sharingTerritoryRules = ts \<rparr>))))))"

subsection \<open>The context object\<close>

text \<open>
  The rows of the five extracts; only the columns the class reads are fields.  The
  private member \<open>_x\<close> is the field \<open>x\<close>, and \<open>_prepared\<close> is \<open>prepared_tm1\<close>.
  The constructor leaves the five record arrays unset and no method reads them before
  \<open>parseCsvFiles\<close> has set them; the model starts them empty.  \<open>Tm1Files\<close> is what the
  file system holds at the two directories given to the constructor: for every file, what
  reading it yields.
\<close>

record TerritoryRecord =
  Id_terr :: string

record AtaRuleRecord =
  Id_rule :: string
  Name :: string
  TerritoryId :: string

record AtaRuleItemRecord =
  RuleId :: string

record Tm1Files =
  accountShareCsv :: "js_error + JsonMap list"
  ataRuleCsv :: "js_error + AtaRuleRecord list"
  ataRuleItemCsv :: "js_error + AtaRuleItemRecord list"
  territoryCsv :: "js_error + TerritoryRecord list"
  userTerritoryCsv :: "js_error + JsonMap list"
  accountSharingRulesFile :: "js_error + string"
  leadSharingRulesFile :: "js_error + string"
  opportunitySharingRulesFile :: "js_error + string"

record Tm1Context =
  accountShareRecords :: "JsonMap list"
  accountSharingRules :: SharingRules
  ataRuleRecords :: "AtaRuleRecord list"
  ataRuleItemRecords :: "AtaRuleItemRecord list"
  ataRuleRecordsById :: "(string \<times> AtaRuleRecord) list"
  ataRuleRecordsByTerritoryId :: "(string \<times> AtaRuleRecord list) list"
  ataRuleItemRecordsByRuleId :: "(string \<times> AtaRuleItemRecord list) list"
  ataRuleDevNamesByRuleId :: "(string \<times> string) list"
  leadSharingRules :: SharingRules
  opportunitySharingRules :: SharingRules
  territoryRecords :: "TerritoryRecord list"
  territoryRecordsById :: "(string \<times> TerritoryRecord) list"
  userTerritoryRecords :: "JsonMap list"
  prepared_tm1 :: bool

definition noSharingRules :: SharingRules where
  "noSharingRules =
     \<lparr>sharingCriteriaRules = [], sharingOwnerRules = [], sharingTerritoryRules = []\<rparr>"

definition newTm1Context :: Tm1Context where
  "newTm1Context =
     \<lparr> accountShareRecords = [],
       accountSharingRules = noSharingRules,
       ataRuleRecords = [],
       ataRuleItemRecords = [],
       ataRuleRecordsById = [],
       ataRuleRecordsByTerritoryId = [],
       ataRuleItemRecordsByRuleId = [],
       ataRuleDevNamesByRuleId = [],
       leadSharingRules = noSharingRules,
       opportunitySharingRules = noSharingRules,
       territoryRecords = [],
       territoryRecordsById = [],
       userTerritoryRecords = [],
       prepared_tm1 = False \<rparr>"

definition matchAtaRuleDeveloperName :: "Tm1Context \<Rightarrow> string \<Rightarrow> bool" where
  "matchAtaRuleDeveloperName this devNameToMatch =
     (devNameToMatch \<in> set (map snd (ataRuleDevNamesByRuleId this)))"

definition devNameMaxLength :: nat where
  "devNameMaxLength = 80"

text \<open>
  The \<open>while\<close> loop of \<open>addAtaRuleDeveloperName\<close>, with the loop variables
  \<open>newDevName\<close> and \<open>counter\<close> as arguments; \<open>None\<close> is a loop that never ends.
  \<open>substring(0, n)\<close> is \<open>take n\<close>, and a negative \<open>n\<close> counts as \<open>0\<close>, which is
  what the subtraction on \<open>nat\<close> gives.  The counter is a natural number; the counter
  of the source is a double, which counts exactly up to \<open>2^53\<close>.  A developer name
  is made of ASCII characters, for which the characters of a \<open>string\<close> and the units
  that \<open>length\<close> and \<open>substring\<close> of the source count are the same.
\<close>

partial_function (option) devNameLoop ::
  "Tm1Context \<Rightarrow> string \<Rightarrow> string \<Rightarrow> nat \<Rightarrow> string option"
where
  "devNameLoop this baseDevName newDevName counter =
     (if matchAtaRuleDeveloperName this newDevName
      then devNameLoop this baseDevName
             (take (devNameMaxLength - length (toString counter)) baseDevName @ toString counter)
             (counter + 1)
      else Some newDevName)"

declare devNameLoop.simps [code]

text \<open>
  \<open>addAtaRuleDeveloperName\<close>.  \<open>createDeveloperName\<close> of
  modules/sfdx-falcon-util/mdapi is not among the sources and is the first argument.
\<close>

definition addAtaRuleDeveloperName ::
  "(string \<Rightarrow> string) \<Rightarrow> AtaRuleRecord \<Rightarrow> Tm1Context \<Rightarrow> (string \<times> Tm1Context) option"
where
  "addAtaRuleDeveloperName createDeveloperName ataRuleRecord this =
     (let baseDevName = createDeveloperName (Name ataRuleRecord) in
      case devNameLoop this baseDevName baseDevName 2 of
        None \<Rightarrow> None
      | Some newDevName \<Rightarrow>
          Some (newDevName,
                this\<lparr>ataRuleDevNamesByRuleId :=
                  AList.update (Id_rule ataRuleRecord) newDevName (ataRuleDevNamesByRuleId this)\<rparr>))"

definition addAtaRuleToTerritoryGroup ::
  "AtaRuleRecord \<Rightarrow> Tm1Context \<Rightarrow> AtaRuleRecord list \<times> Tm1Context"
where
  "addAtaRuleToTerritoryGroup ataRuleRecord this =
     (let group = (case map_of (ataRuleRecordsByTerritoryId this) (TerritoryId ataRuleRecord) of
                     Some rs \<Rightarrow> rs | None \<Rightarrow> []) @ [ataRuleRecord]
      in (group,
          this\<lparr>ataRuleRecordsByTerritoryId :=
            AList.update (TerritoryId ataRuleRecord) group (ataRuleRecordsByTerritoryId this)\<rparr>))"

text \<open>The body of the loop of \<open>transformCsvFiles\<close> over the rules, and the loop.\<close>

definition transformAtaRule ::
  "(string \<Rightarrow> string) \<Rightarrow> AtaRuleRecord \<Rightarrow> Tm1Context \<Rightarrow> Tm1Context option"
where
  "transformAtaRule createDeveloperName ataRuleRecord this =
     (let this1 = this\<lparr>ataRuleRecordsById :=
                    AList.update (Id_rule ataRuleRecord) ataRuleRecord (ataRuleRecordsById this)\<rparr>
      in case addAtaRuleDeveloperName createDeveloperName ataRuleRecord this1 of
           None \<Rightarrow> None
         | Some (newDevName, this2) \<Rightarrow>
             (let this3 = snd (addAtaRuleToTerritoryGroup ataRuleRecord this2);
                  items = filter (\<lambda>ataRuleItemRecord. RuleId ataRuleItemRecord = Id_rule ataRuleRecord)
                            (ataRuleItemRecords this3)
              in Some (this3\<lparr>ataRuleItemRecordsByRuleId :=
                         AList.update (Id_rule ataRuleRecord) items
                           (ataRuleItemRecordsByRuleId this3)\<rparr>)))"

fun transformAtaRules ::
  "(string \<Rightarrow> string) \<Rightarrow> AtaRuleRecord list \<Rightarrow> Tm1Context \<Rightarrow> Tm1Context option"
where
  "transformAtaRules createDeveloperName [] this = Some this"
| "transformAtaRules createDeveloperName (r # rs) this =
     (case transformAtaRule createDeveloperName r this of
        None \<Rightarrow> None
      | Some this' \<Rightarrow> transformAtaRules createDeveloperName rs this')"

definition transformCsvFiles :: "(string \<Rightarrow> string) \<Rightarrow> Tm1Context \<Rightarrow> Tm1Context option" where
  "transformCsvFiles createDeveloperName this =
     transformAtaRules createDeveloperName (ataRuleRecords this)
       (this\<lparr>territoryRecordsById :=
          foldl (\<lambda>m t. AList.update (Id_terr t) t m)
                (territoryRecordsById this) (territoryRecords this)\<rparr>)"

text \<open>
  \<open>parseCsvFiles\<close> reads the five files in the order of the source and stops at the
  first that cannot be parsed.  The result pairs the error thrown, if any, with the
  context as the call leaves it.
\<close>

definition parseCsvFiles :: "Tm1Files \<Rightarrow> Tm1Context \<Rightarrow> js_error option \<times> Tm1Context" where
  "parseCsvFiles files this =
     (case accountShareCsv files of
        Inl e \<Rightarrow> (Some e, this)
      | Inr a \<Rightarrow>
     (let this1 = this\<lparr>accountShareRecords := a\<rparr> in
      case ataRuleCsv files of
        Inl e \<Rightarrow> (Some e, this1)
      | Inr r \<Rightarrow>
     (let this2 = this1\<lparr>ataRuleRecords := r\<rparr> in
      case ataRuleItemCsv files of
        Inl e \<Rightarrow> (Some e, this2)
      | Inr i \<Rightarrow>
     (let this3 = this2\<lparr>ataRuleItemRecords := i\<rparr> in
      case territoryCsv files of
        Inl e \<Rightarrow> (Some e, this3)
      | Inr t \<Rightarrow>
     (let this4 = this3\<lparr>territoryRecords := t\<rparr> in
      case userTerritoryCsv files of
        Inl e \<Rightarrow> (Some e, this4)
      | Inr u \<Rightarrow> (None, this4\<lparr>userTerritoryRecords := u\<rparr>))))))"

text \<open>
  \<open>parseXmlFiles\<close>.  A file that cannot be read yields \<open>undefined\<close>, which the
  tests \<open>if (xml)\<close> treat like the empty string.
\<close>

definition readOrUndefined :: "js_error + string \<Rightarrow> string" where
  "readOrUndefined file = (case file of Inl e \<Rightarrow> [] | Inr text \<Rightarrow> text)"

definition parseXmlFiles ::
  "(string \<Rightarrow> js_error + jsval) \<Rightarrow> Tm1Files \<Rightarrow> Tm1Context \<Rightarrow> js_error option \<times> Tm1Context"
where
  "parseXmlFiles xml2js files this =
     (let accountSharingRulesXml = readOrUndefined (accountSharingRulesFile files);
          leadSharingRulesXml = readOrUndefined (leadSharingRulesFile files);
          opportunitySharingRulesXml = readOrUndefined (opportunitySharingRulesFile files)
      in
      case (if accountSharingRulesXml \<noteq> []
            then (case parseSharingRulesFromXml xml2js accountSharingRulesXml of
                    Inl e \<Rightarrow> (Some e, this)
                  | Inr rules \<Rightarrow> (None, this\<lparr>accountSharingRules := rules\<rparr>))
            else (None, this)) of
        (Some e, this1) \<Rightarrow> (Some e, this1)
      | (None, this1) \<Rightarrow>
      (case (if leadSharingRulesXml \<noteq> []
             then (case parseSharingRulesFromXml xml2js leadSharingRulesXml of
                     Inl e \<Rightarrow> (Some e, this1)
                   | Inr rules \<Rightarrow> (None, this1\<lparr>leadSharingRules := rules\<rparr>))
             else (None, this1)) of
         (Some e, this2) \<Rightarrow> (Some e, this2)
       | (None, this2) \<Rightarrow>
           (if opportunitySharingRulesXml \<noteq> []
            then (case parseSharingRulesFromXml xml2js opportunitySharingRulesXml of
                    Inl e \<Rightarrow> (Some e, this2)
                  | Inr rules \<Rightarrow> (None, this2\<lparr>opportunitySharingRules := rules\<rparr>))
            else (None, this2))))"

text \<open>
  The static method \<open>prepare\<close> of \<open>Tm1Context\<close>; \<open>None\<close> when the loop of
  \<open>addAtaRuleDeveloperName\<close> never ends.
\<close>

definition prepareTm1Context ::
  "(string \<Rightarrow> js_error + jsval) \<Rightarrow> (string \<Rightarrow> string) \<Rightarrow> Tm1Files \<Rightarrow> (js_error + Tm1Context) option"
where
  "prepareTm1Context xml2js createDeveloperName files =
     (case parseCsvFiles files newTm1Context of
        (Some e, this1) \<Rightarrow> Some (Inl e)
      | (None, this1) \<Rightarrow>
          (case transformCsvFiles createDeveloperName this1 of
             None \<Rightarrow> None
           | Some this2 \<Rightarrow>
               (case parseXmlFiles xml2js files this2 of
                  (Some e, this3) \<Rightarrow> Some (Inl e)
                | (None, this3) \<Rightarrow> Some (Inr (this3\<lparr>prepared_tm1 := True\<rparr>)))))"

subsection \<open>validate\<close>

text \<open>
  The counts of the analysis report are numbers; an actual count is the \<open>length\<close> of an
  array.  Of the report only \<open>tm1RecordCounts\<close> is read.
\<close>

record RecordCounts =
  territoryRecordCount :: int
  ataRuleRecordCount :: int
  ataRuleItemRecordCount :: int
  userTerritoryRecordCount :: int
  accountShareRecordCount :: int
  sharingCriteriaRuleCount :: int
  sharingOwnerRuleCount :: int
  sharingTerritoryRuleCount :: int

record TM1AnalysisReport =
  tm1RecordCounts :: RecordCounts

record ExtractedRecords =
  extractedTerritoryRecords :: "TerritoryRecord list"
  extractedAtaRuleRecords :: "AtaRuleRecord list"
  extractedAtaRuleItemRecords :: "AtaRuleItemRecord list"
  extractedUserTerritoryRecords :: "JsonMap list"
  extractedAccountShareRecords :: "JsonMap list"

record ValidationStatus =
  territoryExtractionIsValid :: bool
  ataRuleExtractionIsValid :: bool
  ataRuleItemExtractionIsValid :: bool
  userTerritoryExtractionIsValid :: bool
  accountShareExtractionIsValid :: bool

record TM1ContextValidation =
  records :: ExtractedRecords
  expectedRecordCounts :: RecordCounts
  actualRecordCounts :: RecordCounts
  status :: ValidationStatus

text \<open>
  The static method \<open>validate\<close>.  The last argument is the store of the context objects
  that exist when it is called, a reference being an index; \<open>new Tm1Context\<close> adds an
  object at the end, and the two parse methods write to that object only.
\<close>

definition validate ::
  "(string \<Rightarrow> js_error + jsval) \<Rightarrow> TM1AnalysisReport \<Rightarrow> Tm1Files \<Rightarrow> Tm1Context list
     \<Rightarrow> (js_error + TM1ContextValidation) \<times> Tm1Context list"
where
  "validate xml2js tm1AnalysisReport files store =
     (case parseCsvFiles files newTm1Context of
        (Some e, tm1Context) \<Rightarrow> (Inl e, store @ [tm1Context])
      | (None, tm1Context1) \<Rightarrow>
          (case parseXmlFiles xml2js files tm1Context1 of
             (Some e, tm1Context) \<Rightarrow> (Inl e, store @ [tm1Context])
           | (None, tm1Context) \<Rightarrow>
               (Inr \<lparr> records =
                        \<lparr> extractedTerritoryRecords = territoryRecords tm1Context,
                          extractedAtaRuleRecords = ataRuleRecords tm1Context,
                          extractedAtaRuleItemRecords = ataRuleItemRecords tm1Context,
                          extractedUserTerritoryRecords = userTerritoryRecords tm1Context,
                          extractedAccountShareRecords = accountShareRecords tm1Context \<rparr>,
                      expectedRecordCounts =
                        \<lparr> territoryRecordCount = territoryRecordCount (tm1RecordCounts tm1AnalysisReport),
                          ataRuleRecordCount = ataRuleRecordCount (tm1RecordCounts tm1AnalysisReport),
                          ataRuleItemRecordCount = ataRuleItemRecordCount (tm1RecordCounts tm1AnalysisReport),
                          userTerritoryRecordCount = userTerritoryRecordCount (tm1RecordCounts tm1AnalysisReport),
                          accountShareRecordCount = accountShareRecordCount (tm1RecordCounts tm1AnalysisReport),
                          sharingCriteriaRuleCount = sharingCriteriaRuleCount (tm1RecordCounts tm1AnalysisReport),
                          sharingOwnerRuleCount = sharingOwnerRuleCount (tm1RecordCounts tm1AnalysisReport),
                          sharingTerritoryRuleCount = sharingTerritoryRuleCount (tm1RecordCounts tm1AnalysisReport) \<rparr>,
                      actualRecordCounts =
                        \<lparr> territoryRecordCount = int (length (territoryRecords tm1Context)),
                          ataRuleRecordCount = int (length (ataRuleRecords tm1Context)),
                          ataRuleItemRecordCount = int (length (ataRuleItemRecords tm1Context)),
                          userTerritoryRecordCount = int (length (userTerritoryRecords tm1Context)),
                          accountShareRecordCount = int (length (accountShareRecords tm1Context)),
                          sharingCriteriaRuleCount = - 1,
                          sharingOwnerRuleCount = - 1,
                          sharingTerritoryRuleCount = - 1 \<rparr>,
                      status =
                        \<lparr> territoryExtractionIsValid =
                            (territoryRecordCount (tm1RecordCounts tm1AnalysisReport)
                               = int (length (territoryRecords tm1Context))),
                          ataRuleExtractionIsValid =
                            (ataRuleRecordCount (tm1RecordCounts tm1AnalysisReport)
                               = int (length (ataRuleRecords tm1Context))),
                          ataRuleItemExtractionIsValid =
                            (ataRuleItemRecordCount (tm1RecordCounts tm1AnalysisReport)
                               = int (length (ataRuleItemRecords tm1Context))),
                          userTerritoryExtractionIsValid =
                            (userTerritoryRecordCount (tm1RecordCounts tm1AnalysisReport)
                               = int (length (userTerritoryRecords tm1Context))),
                          accountShareExtractionIsValid =
                            (accountShareRecordCount (tm1RecordCounts tm1AnalysisReport)
                               = int (length (accountShareRecords tm1Context))) \<rparr> \<rparr>,
                store @ [tm1Context])))"

section \<open>Tm1Analysis (modules/tm-tools-objects/tm1-analysis.ts)\<close>

text \<open>
  The members that the class body and the body of its base class \<open>SfdxFalconModel\<close>
  declare, and those of \<open>Object.prototype\<close>: what a property read on an instance can
  find.  Declarations inside comments are not members, and an abstract method has no
  implementation to find.  The private member \<open>_x\<close> of the source is the field
  \<open>m_x\<close> of the record; the constructor does not call \<open>_initialize\<close>, so the
  members that only \<open>_initialize\<close> sets start as \<open>undefined\<close>.
\<close>

datatype member_kind = Field | Accessor | Method

definition Tm1Analysis_members :: "(string \<times> member_kind) list" where
  "Tm1Analysis_members =
     map (\<lambda>n. (n, Field))
       [''_accountShareRecordCount'', ''_ataRuleRecordCount'', ''_ataRuleItemRecordCount'',
        ''_hardTm1DependencyCount'', ''_softTm1DependencyCount'', ''_hardTm1Dependencies'',
        ''_softTm1Dependencies'', ''_accountSharingRulesCount'', ''_leadSharingRulesCount'',
        ''_opportunitySharingRulesCount'', ''_groupRecordCount'', ''_territoryRecordCount'',
        ''_userTerritoryRecordCount'', ''_dateAnalyzed'', ''_orgInfo'', ''_aliasOrUsername'',
        ''_defaultDelay'', ''_filePaths'', ''_prepared''] @
     map (\<lambda>n. (n, Accessor))
       [''accountShareRecordCount'', ''ataRuleRecordCount'', ''ataRuleItemRecordCount'',
        ''hardTm1DependencyCount'', ''softTm1DependencyCount'', ''hardTm1Dependencies'',
        ''softTm1Dependencies'', ''dateAnalyzed'', ''orgInfo'', ''aliasOrUsername'',
        ''accountSharingRulesCount'', ''leadSharingRulesCount'',
        ''opportunitySharingRulesCount'', ''groupRecordCount'', ''territoryRecordCount'',
        ''userTerritoryRecordCount'', ''filePaths'', ''prepared''] @
     map (\<lambda>n. (n, Method))
       [''constructor'', ''analyzeAccountShares'', ''analyzeAtaRuleItems'', ''analyzeAtaRules'',
        ''analyzeGroups'', ''analyzeHardTm1Dependencies'', ''analyzeSoftTm1Dependencies'',
        ''analyzeAccountSharingRules'', ''analyzeLeadSharingRules'',
        ''analyzeOpportunitySharingRules'', ''analyzeTerritories'',
        ''analyzeUserTerritoryAssignments'', ''gatherOrgInformation'', ''generateReport'',
        ''saveReport'', ''_initialize'']"

definition SfdxFalconModel_members :: "(string \<times> member_kind) list" where
  "SfdxFalconModel_members =
     map (\<lambda>n. (n, Field))
       [''trapErrors'', ''_dbgNs'', ''_state'', ''_errors'', ''_buildOpts'', ''_loadOpts''] @
     map (\<lambda>n. (n, Accessor))
       [''dbgNs'', ''ready'', ''built'', ''loaded'', ''failed'', ''stale''] @
     map (\<lambda>n. (n, Method))
       [''constructor'', ''build'', ''load'', ''refresh'', ''isReady'']"

definition Object_prototype_members :: "(string \<times> member_kind) list" where
  "Object_prototype_members =
     map (\<lambda>n. (n, Method))
       [''constructor'', ''hasOwnProperty'', ''isPrototypeOf'', ''propertyIsEnumerable'',
        ''toLocaleString'', ''toString'', ''valueOf'', ''__defineGetter__'',
        ''__defineSetter__'', ''__lookupGetter__'', ''__lookupSetter__''] @
     [(''__proto__'', Accessor)]"

definition lookupMember :: "string \<Rightarrow> member_kind option" where
  "lookupMember name =
     map_of (Tm1Analysis_members @ SfdxFalconModel_members @ Object_prototype_members) name"

record Tm1Analysis =
  m_accountShareRecordCount :: jsval
  m_ataRuleRecordCount :: jsval
  m_ataRuleItemRecordCount :: jsval
  m_hardTm1DependencyCount :: jsval
  m_softTm1DependencyCount :: jsval
  m_hardTm1Dependencies :: jsval
  m_softTm1Dependencies :: jsval
  m_accountSharingRulesCount :: jsval
  m_leadSharingRulesCount :: jsval
  m_opportunitySharingRulesCount :: jsval
  m_groupRecordCount :: jsval
  m_territoryRecordCount :: jsval
  m_userTerritoryRecordCount :: jsval
  m_dateAnalyzed :: jsval
  m_orgInfo :: jsval
  m_aliasOrUsername :: jsval
  m_defaultDelay :: jsval
  m_filePaths :: jsval
  m_prepared :: bool

text \<open>
  The constructor.  The last argument is the text of the current date.  \<open>x || y\<close> is
  \<open>x\<close> when \<open>x\<close> is truthy and \<open>y\<close> otherwise.
\<close>

fun isString :: "jsval \<Rightarrow> bool" where
  "isString (JsString s) = True"
| "isString v = False"

fun isNumber :: "jsval \<Rightarrow> bool" where
  "isNumber (JsNumber n) = True"
| "isNumber v = False"

definition newTm1Analysis :: "jsval \<Rightarrow> jsval \<Rightarrow> jsval \<Rightarrow> string \<Rightarrow> js_error + Tm1Analysis" where
  "newTm1Analysis aliasOrUsername tm1AnalyzeFilePaths defaultDelay dateNow =
     (if aliasOrUsername \<noteq> JsUndefined \<and> \<not> isString aliasOrUsername
      then Inl (SfdxFalconError ''TypeError'' None)
      else if defaultDelay \<noteq> JsUndefined \<and> \<not> isNumber defaultDelay
      then Inl (SfdxFalconError ''TypeError'' None)
      else Inr \<lparr> m_accountShareRecordCount = JsUndefined,
                 m_ataRuleRecordCount = JsUndefined,
                 m_ataRuleItemRecordCount = JsUndefined,
                 m_hardTm1DependencyCount = JsUndefined,
                 m_softTm1DependencyCount = JsUndefined,
                 m_hardTm1Dependencies = JsUndefined,
                 m_softTm1Dependencies = JsUndefined,
                 m_accountSharingRulesCount = JsUndefined,
                 m_leadSharingRulesCount = JsUndefined,
                 m_opportunitySharingRulesCount = JsUndefined,
                 m_groupRecordCount = JsUndefined,
                 m_territoryRecordCount = JsUndefined,
                 m_userTerritoryRecordCount = JsUndefined,
                 m_dateAnalyzed = JsString dateNow,
                 m_orgInfo = JsUndefined,
                 m_aliasOrUsername =
                   (if truthy aliasOrUsername then aliasOrUsername else JsString []),
                 m_defaultDelay = (if truthy defaultDelay then defaultDelay else JsNumber 1),
                 m_filePaths = tm1AnalyzeFilePaths,
                 m_prepared = True \<rparr>)"

text \<open>
  The statement \<open>this.name();\<close>.  When the property read finds a method, the method
  runs: \<open>run\<close> gives, for the methods there are, the error they throw, if any.  When it
  finds anything else, or nothing, the call throws a TypeError.
\<close>

definition callMethod ::
  "(string \<Rightarrow> Tm1Analysis \<Rightarrow> js_error option) \<Rightarrow> string \<Rightarrow> Tm1Analysis \<Rightarrow> js_error + unit"
where
  "callMethod run name this =
     (case lookupMember name of
        Some Method \<Rightarrow> (case run name this of Some e \<Rightarrow> Inl e | None \<Rightarrow> Inr ())
      | Some other \<Rightarrow> Inl NativeTypeError
      | None \<Rightarrow> Inl NativeTypeError)"

text \<open>The public accessors, one constructor for each \<open>get\<close> of the class.\<close>

datatype Tm1AnalysisAccessor =
    get_accountShareRecordCount
  | get_ataRuleRecordCount
  | get_ataRuleItemRecordCount
  | get_hardTm1DependencyCount
  | get_softTm1DependencyCount
  | get_hardTm1Dependencies
  | get_softTm1Dependencies
  | get_dateAnalyzed
  | get_orgInfo
  | get_aliasOrUsername
  | get_accountSharingRulesCount
  | get_leadSharingRulesCount
  | get_opportunitySharingRulesCount
  | get_groupRecordCount
  | get_territoryRecordCount
  | get_userTerritoryRecordCount
  | get_filePaths
  | get_prepared

text \<open>The body \<open>{ this.checkPrepared(); return this._x; }\<close>.\<close>

definition checkedRead ::
  "(string \<Rightarrow> Tm1Analysis \<Rightarrow> js_error option) \<Rightarrow> Tm1Analysis \<Rightarrow> jsval \<Rightarrow> js_error + jsval"
where
  "checkedRead run this stored =
     andThen (callMethod run ''checkPrepared'' this) (\<lambda>u. Inr stored)"

fun readAccessor ::
  "(string \<Rightarrow> Tm1Analysis \<Rightarrow> js_error option) \<Rightarrow> Tm1AnalysisAccessor \<Rightarrow> Tm1Analysis
     \<Rightarrow> js_error + jsval"
where
  "readAccessor run get_accountShareRecordCount this =
     checkedRead run this (m_accountShareRecordCount this)"
| "readAccessor run get_ataRuleRecordCount this =
     checkedRead run this (m_ataRuleRecordCount this)"
| "readAccessor run get_ataRuleItemRecordCount this =
     checkedRead run this (m_ataRuleItemRecordCount this)"
| "readAccessor run get_hardTm1DependencyCount this =
     checkedRead run this (m_hardTm1DependencyCount this)"
| "readAccessor run get_softTm1DependencyCount this =
     checkedRead run this (m_softTm1DependencyCount this)"
| "readAccessor run get_hardTm1Dependencies this =
     checkedRead run this (m_hardTm1Dependencies this)"
| "readAccessor run get_softTm1Dependencies this =
     checkedRead run this (m_softTm1Dependencies this)"
| "readAccessor run get_dateAnalyzed this =
     checkedRead run this (m_dateAnalyzed this)"
| "readAccessor run get_orgInfo this =
     checkedRead run this (m_orgInfo this)"
| "readAccessor run get_aliasOrUsername this =
     checkedRead run this (m_aliasOrUsername this)"
| "readAccessor run get_accountSharingRulesCount this =
     checkedRead run this (m_accountSharingRulesCount this)"
| "readAccessor run get_leadSharingRulesCount this =
     checkedRead run this (m_leadSharingRulesCount this)"
| "readAccessor run get_opportunitySharingRulesCount this =
     checkedRead run this (m_opportunitySharingRulesCount this)"
| "readAccessor run get_groupRecordCount this =
     checkedRead run this (m_groupRecordCount this)"
| "readAccessor run get_territoryRecordCount this =
     checkedRead run this (m_territoryRecordCount this)"
| "readAccessor run get_userTerritoryRecordCount this =
     checkedRead run this (m_userTerritoryRecordCount this)"
| "readAccessor run get_filePaths this = Inr (m_filePaths this)"
| "readAccessor run get_prepared this = Inr (JsBool (m_prepared this))"

subsection \<open>Vocabulary and example inputs for the Tm2Context properties\<close>

text \<open>
  \<open>rowResolved idx d\<close> is the mapping row \<open>d\<close> with its identifier taken from the
  by-DeveloperName index \<open>idx\<close> and, when it names a parent, its parent identifier too.
  \<open>indexRebuilt recs this\<close> is the context after the two record maps were rebuilt
  from the records \<open>recs\<close>.
\<close>

abbreviation rowResolved :: "(string \<times> Territory2Record) list \<Rightarrow> TerritoryDevNameMapping \<Rightarrow> TerritoryDevNameMapping" where
  "rowResolved idx d \<equiv>
     d\<lparr>territory2Id := Id_t2 (the (map_of idx (territory2DevName d))),
       territory2ParentId :=
         (if territory2ParentDevName d \<noteq> []
          then Id_t2 (the (map_of idx (territory2ParentDevName d)))
          else territory2ParentId d)\<rparr>"

abbreviation indexRebuilt :: "Territory2Record list \<Rightarrow> Tm2Context \<Rightarrow> Tm2Context" where
  "indexRebuilt recs this \<equiv>
     buildT2RecordsByIdMap (buildT2RecordsByDevNameMap (this\<lparr>territory2Records := recs\<rparr>))"

text \<open>
  The example of section 8 of the specification: rows DevA and DevB (whose parent is
  DevA), prepared while no Territory2 file exists, and an extract with DevA as D001 and
  DevB as D002.  In the second table the second row names DevX, which no extract has.
\<close>

definition mappingsAB :: "TerritoryDevNameMapping list" where
  "mappingsAB =
     [\<lparr>territory2DevName = ''DevA'', territory2ParentDevName = [],
        territory2Id = [], territory2ParentId = []\<rparr>,
      \<lparr>territory2DevName = ''DevB'', territory2ParentDevName = ''DevA'',
        territory2Id = [], territory2ParentId = []\<rparr>]"

definition extractAB :: "Territory2Record list" where
  "extractAB = [\<lparr>Id_t2 = ''D001'', DeveloperName = ''DevA''\<rparr>,
                \<lparr>Id_t2 = ''D002'', DeveloperName = ''DevB''\<rparr>]"

definition preparedAB :: Tm2Context where
  "preparedAB =
     (case prepare (Inr mappingsAB) (Inl (ForeignError ''ENOENT'')) of
        Inr this \<Rightarrow> this | Inl e \<Rightarrow> newTm2Context)"

definition updatedAB :: Tm2Context where
  "updatedAB = snd (updateRecordMaps (Inr extractAB) preparedAB)"





text \<open>One row of the intermediate UserTerritory2Association file, for DevB.\<close>

definition rowPendingDevB :: JsonMap where
  "rowPendingDevB = [(''UserId'', ''005A''), (''Territory2Id'', ''T2ID_PENDING_DevB'')]"

subsection \<open>An example model class\<close>

text \<open>
  A derived class whose options are rows, whose validators are those the names of the
  \<open>TypeValidator\<close> functions describe (an empty object is refused by the first one
  only), and whose derived member is the log of the hook calls: \<open>_build\<close> and
  \<open>_load\<close> append the options they were given and resolve to \<open>true\<close>, except that
  options with a key \<open>fail\<close> make them resolve to \<open>false\<close>.
\<close>

definition loggingClass :: "(JsonMap, (string \<times> JsonMap) list) ModelClass" where
  "loggingClass =
     \<lparr> build_impl = (\<lambda>opts log. (Resolved (map_of opts ''fail'' = None), log @ [(''_build'', opts)])),
       load_impl = (\<lambda>opts log. (Resolved (map_of opts ''fail'' = None), log @ [(''_load'', opts)])),
       emptyObject = [],
       throwOnEmptyNullInvalidObject =
         (\<lambda>opts. if opts = [] then Some (SfdxFalconError ''TypeError'' None) else None),
       throwOnNullInvalidObject = (\<lambda>opts. None) \<rparr>"

definition loadedModel :: "(JsonMap, (string \<times> JsonMap) list) SfdxFalconModel" where
  "loadedModel =
     snd (load loggingClass (Some [(''file'', ''tm1-analysis.json'')])
            (newSfdxFalconModel loggingClass None []))"





subsection \<open>Example sharing-rules documents\<close>

text \<open>
  The content of one rule that is shared to the territory East, and what xml-js returns
  for it in compact form; three documents: one with that rule as its only criteria rule,
  one with it as its only owner rule, and one with the rule twice among the criteria
  rules.  \<open>compactForm\<close> is the conversion restricted to these three documents.
\<close>

definition textNode :: "string \<Rightarrow> jsval" where
  "textNode s = JsObject [(''_text'', JsString s)]"

definition ruleEastXml :: string where
  "ruleEastXml =
     ''<fullName>East_Accounts</fullName><accessLevel>Edit</accessLevel>'' @
     ''<sharedTo><territory>East</territory></sharedTo>'' @
     ''<criteriaItems><field>BillingState</field><operation>equals</operation>'' @
     ''<value>NY</value></criteriaItems>''"

definition ruleEast :: jsval where
  "ruleEast =
     JsObject [(''fullName'', textNode ''East_Accounts''),
               (''accessLevel'', textNode ''Edit''),
               (''sharedTo'', JsObject [(''territory'', textNode ''East'')]),
               (''criteriaItems'',
                  JsObject [(''field'', textNode ''BillingState''),
                            (''operation'', textNode ''equals''),
                            (''value'', textNode ''NY'')])]"

definition oneCriteriaRuleXml :: string where
  "oneCriteriaRuleXml =
     ''<SharingRules><sharingCriteriaRules>'' @ ruleEastXml @
     ''</sharingCriteriaRules></SharingRules>''"

definition oneOwnerRuleXml :: string where
  "oneOwnerRuleXml =
     ''<SharingRules><sharingOwnerRules>'' @ ruleEastXml @
     ''</sharingOwnerRules></SharingRules>''"

definition twoCriteriaRulesXml :: string where
  "twoCriteriaRulesXml =
     ''<SharingRules><sharingCriteriaRules>'' @ ruleEastXml @
     ''</sharingCriteriaRules><sharingCriteriaRules>'' @ ruleEastXml @
     ''</sharingCriteriaRules></SharingRules>''"

definition compactForm :: "string \<Rightarrow> js_error + jsval" where
  "compactForm xml =
     (if xml = oneCriteriaRuleXml
      then Inr (JsObject [(''SharingRules'', JsObject [(''sharingCriteriaRules'', ruleEast)])])
      else if xml = oneOwnerRuleXml
      then Inr (JsObject [(''SharingRules'', JsObject [(''sharingOwnerRules'', ruleEast)])])
      else if xml = twoCriteriaRulesXml
      then Inr (JsObject [(''SharingRules'',
                  JsObject [(''sharingCriteriaRules'', JsArray [ruleEast, ruleEast])])])
      else Inl (ForeignError ''xml-js''))"

subsection \<open>Vocabulary and example inputs for the Tm1Context and Tm1Analysis properties\<close>

text \<open>
  \<open>suffixedName b c\<close> is the name the loop of \<open>addAtaRuleDeveloperName\<close> forms from
  the base name \<open>b\<close> and the counter \<open>c\<close>; \<open>takenNames this\<close> are the names the
  context has assigned; \<open>chosenName this b\<close> is the base name if it is not taken, and
  otherwise the suffixed name for the least counter from 2 on whose suffixed name is not
  taken.
\<close>

abbreviation suffixedName :: "string \<Rightarrow> nat \<Rightarrow> string" where
  "suffixedName baseDevName counter \<equiv>
     take (devNameMaxLength - length (toString counter)) baseDevName @ toString counter"

abbreviation takenNames :: "Tm1Context \<Rightarrow> string set" where
  "takenNames this \<equiv> set (map snd (ataRuleDevNamesByRuleId this))"

abbreviation chosenName :: "Tm1Context \<Rightarrow> string \<Rightarrow> string" where
  "chosenName this baseDevName \<equiv>
     (if baseDevName \<notin> takenNames this then baseDevName
      else suffixedName baseDevName
             (LEAST counter. 2 \<le> counter \<and> suffixedName baseDevName counter \<notin> takenNames this))"

text \<open>
  An extraction with two rules whose names give the same slug, three rule items, eight
  territories, one user assignment, no account shares and no sharing-rule files; an
  analysis report that expects ten territories and otherwise what the extraction has; a
  slug function that keeps letters and digits, replaces every other character by an
  underscore and cuts at 80 characters; the context after \<open>parseCsvFiles\<close>; and an
  analysis object as the constructor makes it.
\<close>

definition filesEx :: Tm1Files where
  "filesEx =
     \<lparr> accountShareCsv = Inr [],
       ataRuleCsv = Inr [\<lparr>Id_rule = ''0OH1'', Name = ''East Region'', TerritoryId = ''04T1''\<rparr>,
                         \<lparr>Id_rule = ''0OH2'', Name = ''East-Region'', TerritoryId = ''04T1''\<rparr>],
       ataRuleItemCsv = Inr [\<lparr>RuleId = ''0OH1''\<rparr>, \<lparr>RuleId = ''0OH1''\<rparr>, \<lparr>RuleId = ''0OH2''\<rparr>],
       territoryCsv = Inr (map (\<lambda>n. \<lparr>Id_terr = ''04T'' @ toString n\<rparr>) [1..<9]),
       userTerritoryCsv = Inr [[(''UserId'', ''005A''), (''TerritoryId'', ''04T1'')]],
       accountSharingRulesFile = Inl (ForeignError ''ENOENT''),
       leadSharingRulesFile = Inl (ForeignError ''ENOENT''),
       opportunitySharingRulesFile = Inl (ForeignError ''ENOENT'') \<rparr>"

definition reportEx :: TM1AnalysisReport where
  "reportEx =
     \<lparr> tm1RecordCounts =
         \<lparr> territoryRecordCount = 10, ataRuleRecordCount = 2, ataRuleItemRecordCount = 3,
           userTerritoryRecordCount = 1, accountShareRecordCount = 0,
           sharingCriteriaRuleCount = 0, sharingOwnerRuleCount = 0,
           sharingTerritoryRuleCount = 0 \<rparr> \<rparr>"

definition slugEx :: "string \<Rightarrow> string" where
  "slugEx s =
     take 80 (map (\<lambda>c. if c \<in> set ''abcdefghijklmnopqrstuvwxyzABCDEFGHIJKLMNOPQRSTUVWXYZ0123456789''
                         then c else CHR ''_'') s)"

definition parsedEx :: Tm1Context where
  "parsedEx = snd (parseCsvFiles filesEx newTm1Context)"

definition analysisEx :: Tm1Analysis where
  "analysisEx =
     projr (newTm1Analysis (JsString ''tm1-org'')
              (JsObject [(''baseDirectory'', JsString ''/tmp/tm''),
                         (''tm1AnalysisReportPath'', JsString ''/tmp/tm/tm1-analysis.json'')])
              JsUndefined ''Mon Jan 06 2020'')"

text \<open>
  An extraction whose three rules are named X, X and X2, and the context after
  \<open>parseCsvFiles\<close> has read it.
\<close>

definition filesXX2 :: Tm1Files where
  "filesXX2 =
     filesEx\<lparr>ataRuleCsv :=
       Inr [\<lparr>Id_rule = ''0OH1'', Name = ''X'', TerritoryId = ''04T1''\<rparr>,
            \<lparr>Id_rule = ''0OH2'', Name = ''X'', TerritoryId = ''04T1''\<rparr>,
            \<lparr>Id_rule = ''0OH3'', Name = ''X2'', TerritoryId = ''04T1''\<rparr>]\<rparr>"

definition parsedXX2 :: Tm1Context where
  "parsedXX2 = snd (parseCsvFiles filesXX2 newTm1Context)"

section \<open>Properties of Tm2Context\<close>

subsection \<open>The by-DeveloperName index and the loop over the mapping rows\<close>

lemma map_of_devname_fold:
  "map_of (foldl (\<lambda>m r. AList.update (DeveloperName r) r m) m0 recs)
     = map_of m0 ++ map_of (rev (map (\<lambda>r. (DeveloperName r, r)) recs))"
proof (induction recs arbitrary: m0)
  case Nil
  show ?case by simp
next
  case (Cons r rs)
  let ?M = "map_of (rev (map (\<lambda>r. (DeveloperName r, r)) rs))"
  have "map_of (foldl (\<lambda>m r. AList.update (DeveloperName r) r m) m0 (r # rs))
          = map_of (AList.update (DeveloperName r) r m0) ++ ?M"
    by (simp add: Cons.IH)
  also have "\<dots> = (map_of m0)(DeveloperName r \<mapsto> r) ++ ?M"
    by (simp only: update_conv')
  also have "\<dots> = map_of m0 ++ map_of (rev (map (\<lambda>r. (DeveloperName r, r)) (r # rs)))"
    by (rule ext) (simp add: map_add_def split: option.splits)
  finally show ?case .
qed

lemma devname_index_hit:
  assumes "n \<in> DeveloperName ` set recs"
  shows "\<exists>r \<in> set recs. DeveloperName r = n \<and>
           map_of (foldl (\<lambda>m r. AList.update (DeveloperName r) r m) m0 recs) n = Some r"
proof -
  let ?al = "rev (map (\<lambda>r. (DeveloperName r, r)) recs)"
  from assms have "n \<in> fst ` set ?al" by force
  then obtain r where r: "map_of ?al n = Some r"
    by (meson map_of_eq_None_iff not_None_eq)
  then have "(n, r) \<in> set ?al" by (rule map_of_SomeD)
  then have "r \<in> set recs" "DeveloperName r = n" by auto
  moreover have "map_of (foldl (\<lambda>m r. AList.update (DeveloperName r) r m) m0 recs) n = Some r"
    using r by (simp add: map_of_devname_fold map_add_def)
  ultimately show ?thesis by blast
qed

lemma updateMappings_all_found:
  assumes "\<forall>d \<in> set ds. territory2DevName d \<noteq> [] \<and>
             map_of (territory2RecordsByDevName this) (territory2DevName d) \<noteq> None \<and>
             (territory2ParentDevName d \<noteq> [] \<longrightarrow>
                map_of (territory2RecordsByDevName this) (territory2ParentDevName d) \<noteq> None)"
  shows "updateMappings this ds =
           (None, map (\<lambda>d. d\<lparr>territory2Id :=
                               Id_t2 (the (map_of (territory2RecordsByDevName this) (territory2DevName d))),
                             territory2ParentId :=
                               (if territory2ParentDevName d \<noteq> []
                                then Id_t2 (the (map_of (territory2RecordsByDevName this) (territory2ParentDevName d)))
                                else territory2ParentId d)\<rparr>) ds)"
  using assms
  by (induction ds) (auto simp: lookupTerritory2Id_def Let_def)

lemma updateMappings_success:
  assumes "updateMappings this ds = (None, ds')"
  shows "ds' = map (\<lambda>d. d\<lparr>territory2Id :=
                               Id_t2 (the (map_of (territory2RecordsByDevName this) (territory2DevName d))),
                             territory2ParentId :=
                               (if territory2ParentDevName d \<noteq> []
                                then Id_t2 (the (map_of (territory2RecordsByDevName this) (territory2ParentDevName d)))
                                else territory2ParentId d)\<rparr>) ds"
  using assms
proof (induction ds arbitrary: ds')
  case Nil
  then show ?case by simp
next
  case (Cons d ds)
  then show ?case
    by (auto simp: lookupTerritory2Id_def Let_def split: if_splits option.splits prod.splits sum.splits)
qed

lemma updateMappings_length: "length (snd (updateMappings this ds)) = length ds"
  by (induction ds) (auto simp: Let_def split: sum.splits prod.splits)





lemma indexRebuilt_fields:
  "territoryDevNameMappings (indexRebuilt recs this) = territoryDevNameMappings this"
  "updated (indexRebuilt recs this) = updated this"
  "territory2RecordsByDevName (indexRebuilt recs this) =
     foldl (\<lambda>m r. AList.update (DeveloperName r) r m) (territory2RecordsByDevName this) recs"
  by (simp_all add: buildT2RecordsByIdMap_def buildT2RecordsByDevNameMap_def)

lemma updateRecordMaps_nonempty:
  assumes "recs \<noteq> []"
  shows "updateRecordMaps (Inr recs) this =
           (case updateMappings (indexRebuilt recs this) (territoryDevNameMappings this) of
              (Some e, ds) \<Rightarrow> (Some e, (indexRebuilt recs this)\<lparr>territoryDevNameMappings := ds\<rparr>)
            | (None, ds) \<Rightarrow>
                (None, (buildTerritoryDevNameMapByT2Id
                          ((indexRebuilt recs this)\<lparr>territoryDevNameMappings := ds\<rparr>))\<lparr>updated := True\<rparr>))"
  using assms by (simp add: updateRecordMaps_def Let_def indexRebuilt_fields)

lemma updateRecordMaps_index:
  assumes "recs \<noteq> []"
  shows "territory2RecordsByDevName (snd (updateRecordMaps (Inr recs) this)) =
           territory2RecordsByDevName (indexRebuilt recs this)"
  using assms
  by (simp add: updateRecordMaps_nonempty buildTerritoryDevNameMapByT2Id_def
           split: prod.splits option.splits)


subsection \<open>The association records\<close>

lemma transformRows_detached:
  "transformRows (transformPendingT2Id None) rows = (if rows = [] then Inr [] else Inl NativeTypeError)"
  by (cases rows) (simp_all add: transformPendingT2Id_def)

lemma association_records_stay_empty:
  assumes "userTerritory2AssociationRecords this = []"
  shows "userTerritory2AssociationRecords (snd (buildUserT2AssociationRecords file this)) = []"
  using assms
  by (auto simp: buildUserT2AssociationRecords_def transformFile_def transformRows_detached
           split: sum.splits if_splits)

lemma association_build_result:
  assumes "userTerritory2AssociationRecords this = []"
  shows "buildUserT2AssociationRecords (Inr rows) this =
           (if rows = [] then (None, this) else (Some NativeTypeError, this))"
  using assms
  by (simp add: buildUserT2AssociationRecords_def transformFile_def transformRows_detached)

lemma association_guard:
  "length (userTerritory2AssociationRecords this) \<noteq> 0 \<Longrightarrow>
     buildUserT2AssociationRecords file this =
       (Some (SfdxFalconError ''RecordBuildError'' None), this)"
  by (simp add: buildUserT2AssociationRecords_def)

subsection \<open>Claims about updateRecordMaps\<close>

text \<open>
  C3.  Take a mapping table and a destination extract such that every row's
  DeveloperName, and its parent DeveloperName when it has one, occurs in the extract.
  If moreover the extract is not empty and no row has an empty DeveloperName, the call
  returns.  Whenever the call returns, the context is marked updated, the index maps
  every DeveloperName of the extract to a record of the extract with that name, every
  row's \<open>territory2Id\<close> is the identifier of the record the index holds for the row's
  DeveloperName, and every row with a parent has as \<open>territory2ParentId\<close> the identifier
  the index holds for the parent's DeveloperName.  The witness is the example of the
  specification: T1.destinationId = D001, T2.destinationId = D002,
  T2.parentDestinationId = D001.
\<close>

theorem updateRecordMaps_resolves:
  assumes "\<forall>d \<in> set (territoryDevNameMappings this).
             territory2DevName d \<in> DeveloperName ` set recs \<and>
             (territory2ParentDevName d \<noteq> [] \<longrightarrow>
                territory2ParentDevName d \<in> DeveloperName ` set recs)"
      and "updateRecordMaps (Inr recs) this = (r, this')"
  shows "(recs \<noteq> [] \<and> (\<forall>d \<in> set (territoryDevNameMappings this). territory2DevName d \<noteq> [])
            \<longrightarrow> r = None)
       \<and> (r = None \<longrightarrow>
            updated this' \<and>
            (\<forall>n \<in> DeveloperName ` set recs. \<exists>t \<in> set recs.
                DeveloperName t = n \<and> map_of (territory2RecordsByDevName this') n = Some t) \<and>
            territoryDevNameMappings this' =
              map (rowResolved (territory2RecordsByDevName this')) (territoryDevNameMappings this))"
proof -
  let ?this2 = "indexRebuilt recs this"
  let ?ds = "territoryDevNameMappings this"
  have hit: "\<exists>t \<in> set recs. DeveloperName t = n \<and>
               map_of (territory2RecordsByDevName ?this2) n = Some t"
    if "n \<in> DeveloperName ` set recs" for n
    using devname_index_hit[OF that] by (simp add: indexRebuilt_fields)
  show ?thesis
  proof (cases "recs = []")
    case True
    with assms(2) show ?thesis
      by (auto simp: updateRecordMaps_def Let_def)
  next
    case False
    have idx: "territory2RecordsByDevName this' = territory2RecordsByDevName ?this2"
      using updateRecordMaps_index[OF False, of this] assms(2) by simp
    have succ: "r = None" if ne: "\<forall>d \<in> set ?ds. territory2DevName d \<noteq> []"
    proof -
      have "\<forall>d \<in> set ?ds. territory2DevName d \<noteq> [] \<and>
              map_of (territory2RecordsByDevName ?this2) (territory2DevName d) \<noteq> None \<and>
              (territory2ParentDevName d \<noteq> [] \<longrightarrow>
                 map_of (territory2RecordsByDevName ?this2) (territory2ParentDevName d) \<noteq> None)"
        using assms(1) ne hit by fastforce
      from updateMappings_all_found[OF this] assms(2) show ?thesis
        by (simp add: updateRecordMaps_nonempty[OF False])
    qed
    have res: "updated this' \<and> territoryDevNameMappings this' =
              map (rowResolved (territory2RecordsByDevName this')) ?ds" if rn: "r = None"
    proof -
      obtain ds' where um: "updateMappings ?this2 ?ds = (None, ds')"
        using assms(2) rn
        by (auto simp: updateRecordMaps_nonempty[OF False] split: prod.splits option.splits)
      from updateMappings_success[OF um] assms(2) um show ?thesis
        by (auto simp: updateRecordMaps_nonempty[OF False] idx buildTerritoryDevNameMapByT2Id_def)
    qed
    from succ res hit idx False show ?thesis by auto
  qed
qed

theorem updateRecordMaps_resolves_witness:
  "fst (updateRecordMaps (Inr extractAB) preparedAB) = None \<and>
   territoryDevNameMappings (snd (updateRecordMaps (Inr extractAB) preparedAB)) =
     [\<lparr>territory2DevName = ''DevA'', territory2ParentDevName = [],
        territory2Id = ''D001'', territory2ParentId = []\<rparr>,
      \<lparr>territory2DevName = ''DevB'', territory2ParentDevName = ''DevA'',
        territory2Id = ''D002'', territory2ParentId = ''D001''\<rparr>]"
proof -
  have ds: "territoryDevNameMappings preparedAB = mappingsAB"
    by code_simp
  have h: "\<forall>d \<in> set (territoryDevNameMappings preparedAB).
             territory2DevName d \<in> DeveloperName ` set extractAB \<and>
             (territory2ParentDevName d \<noteq> [] \<longrightarrow>
                territory2ParentDevName d \<in> DeveloperName ` set extractAB)"
    by (simp add: ds) (simp add: mappingsAB_def extractAB_def)
  have ne: "extractAB \<noteq> [] \<and>
            (\<forall>d \<in> set (territoryDevNameMappings preparedAB). territory2DevName d \<noteq> [])"
    by (simp add: ds) (simp add: mappingsAB_def extractAB_def)
  have idx: "territory2RecordsByDevName (snd (updateRecordMaps (Inr extractAB) preparedAB)) =
               [(''DevA'', \<lparr>Id_t2 = ''D001'', DeveloperName = ''DevA''\<rparr>),
                (''DevB'', \<lparr>Id_t2 = ''D002'', DeveloperName = ''DevB''\<rparr>)]"
    by code_simp
  from updateRecordMaps_resolves[OF h surjective_pairing] ne
  have "fst (updateRecordMaps (Inr extractAB) preparedAB) = None"
    and "territoryDevNameMappings (snd (updateRecordMaps (Inr extractAB) preparedAB)) =
           map (rowResolved (territory2RecordsByDevName (snd (updateRecordMaps (Inr extractAB) preparedAB))))
               (territoryDevNameMappings preparedAB)"
    by blast+
  then show ?thesis
    by (simp add: idx ds mappingsAB_def)
qed




subsection \<open>Claims about the association records\<close>

text \<open>
  C1 does not hold of the code.  The context \<open>updatedAB\<close> has been updated and resolves
  DevB to D002.  Building the association records from one intermediate row whose
  \<open>Territory2Id\<close> column is T2ID_PENDING_DevB throws the TypeError of the runtime,
  because the row handler is called detached from the context, and leaves the context
  as it was, with no association record.  Called on the context, the handler would
  return the row with the placeholder still in \<open>Territory2Id\<close> and D002 in a new
  property \<open>territory2Id\<close>, spelled with a lower-case initial.
\<close>

theorem association_build_throws:
  "updated updatedAB \<and>
   lookupTerritory2Id updatedAB ''DevB'' = Inr ''D002'' \<and>
   buildUserT2AssociationRecords (Inr [rowPendingDevB]) updatedAB =
     (Some NativeTypeError, updatedAB) \<and>
   userTerritory2AssociationRecords updatedAB = [] \<and>
   transformPendingT2Id (Some updatedAB) rowPendingDevB =
     Inr [(''UserId'', ''005A''), (''Territory2Id'', ''T2ID_PENDING_DevB''),
          (''territory2Id'', ''D002'')]"
  by code_simp

section \<open>Properties of SfdxFalconModel\<close>

lemma refresh_not_ready:
  "\<not> ready (state this) \<Longrightarrow> refresh cls this = (Inl (SfdxFalconError ''RefreshError'' None), this)"
  by (simp add: refresh_def)

lemma refresh_built:
  assumes "ready (state this)" "built (state this)" "throwOnNullInvalidObject cls (buildOpts this) = None"
    "build_impl cls (buildOpts this) (derived this) = (Resolved True, d')"
  shows "refresh cls this =
           (Inr \<lparr>built = True, loaded = False, failed = False, ready = True, stale = False\<rparr>,
            this\<lparr>derived := d', state := \<lparr>built = True, loaded = False, failed = False, ready = True, stale = False\<rparr>\<rparr>)"
  using assms by (simp add: refresh_def buildHandlers_def Let_def)

lemma refresh_loaded_never_returns:
  assumes "ready (state this)" "\<not> built (state this)"
  shows "\<exists>e. fst (refresh cls this) = Inl e"
  using assms by (auto simp: refresh_def split: option.splits prod.splits hook_outcome.splits)







text \<open>
  C4 does not hold of the code.  \<open>refresh\<close> does fail on an instance that is not ready
  (\<open>refresh_not_ready\<close>) and does rebuild an instance made ready by \<open>build\<close>
  (\<open>refresh_built\<close>).  But on an instance made ready by \<open>load\<close> it never returns
  (\<open>refresh_loaded_never_returns\<close>).  Here \<open>loadedModel\<close> was loaded with the options
  \<open>{file: 'tm1-analysis.json'}\<close>; \<open>refresh\<close> runs \<open>_load\<close> again with these
  options, as the log shows, and then throws the error named ERROR_NAME instead of
  returning the state.
\<close>

theorem refresh_after_load_throws:
  "state loadedModel = \<lparr>built = False, loaded = True, failed = False, ready = True, stale = False\<rparr> \<and>
   loadOpts loadedModel = [(''file'', ''tm1-analysis.json'')] \<and>
   refresh loggingClass loadedModel =
     (Inl (SfdxFalconError ''ERROR_NAME'' None),
      loadedModel\<lparr>derived := [(''_load'', [(''file'', ''tm1-analysis.json'')]),
                              (''_load'', [(''file'', ''tm1-analysis.json'')])]\<rparr>)"
  by code_simp

lemma ready_guards:
  "ready (state this) \<Longrightarrow>
     build cls opts this = (Inl (SfdxFalconError ''BuildError'' None), this) \<and>
     load cls opts this = (Inl (SfdxFalconError ''LoadingError'' None), this)"
  by (simp add: build_def load_def)





section \<open>Properties of Tm1Context\<close>

subsection \<open>Decimal numerals\<close>

lemma digitChar_inj:
  assumes "a < 10" "b < 10" "digitChar a = digitChar b"
  shows "a = b"
proof -
  have d: "distinct ''0123456789''" by simp
  have l: "length ''0123456789'' = 10" by simp
  from assms show ?thesis
    unfolding digitChar_def using nth_eq_iff_index_eq[OF d, of a b] l by simp
qed

lemma toString_nonempty: "toString n \<noteq> []"
  by (subst toString.simps) simp

lemma toString_small: "n < 10 \<Longrightarrow> toString n = [digitChar n]"
  by (subst toString.simps) simp

lemma toString_large:
  "\<not> n < 10 \<Longrightarrow> toString n = toString (n div 10) @ [digitChar (n mod 10)]"
  by (subst toString.simps) simp

lemma toString_inj: "toString a = toString b \<Longrightarrow> a = b"
proof (induction a arbitrary: b rule: toString.induct)
  case (1 a)
  show ?case
  proof (cases "a < 10")
    case True
    note a = this
    show ?thesis
    proof (cases "b < 10")
      case True
      with a "1.prems" show ?thesis
        by (auto simp: toString_small intro: digitChar_inj)
    next
      case False
      with a "1.prems" toString_nonempty[of "b div 10"] show ?thesis
        by (simp add: toString_small toString_large)
    qed
  next
    case False
    note a = this
    show ?thesis
    proof (cases "b < 10")
      case True
      with a "1.prems" toString_nonempty[of "a div 10"] show ?thesis
        by (simp add: toString_small toString_large)
    next
      case False
      with a "1.prems" have "toString (a div 10) = toString (b div 10)"
        and "digitChar (a mod 10) = digitChar (b mod 10)"
        by (simp_all add: toString_large)
      then have "a div 10 = b div 10" and "a mod 10 = b mod 10"
        using "1.IH"[OF a] by (auto intro: digitChar_inj)
      then show ?thesis
        by (metis div_mult_mod_eq)
    qed
  qed
qed

lemma length_toString:
  "10 ^ m \<le> n \<Longrightarrow> n < 10 ^ Suc m \<Longrightarrow> length (toString n) = Suc m"
proof (induction m arbitrary: n)
  case 0
  then show ?case by (simp add: toString_small)
next
  case (Suc m)
  define x :: nat where "x = 10 ^ m"
  have x: "1 \<le> x" by (simp add: x_def)
  from Suc.prems have p: "10 * x \<le> n" "n < 10 * (10 * x)"
    by (simp_all add: x_def)
  from p x have big: "\<not> n < 10" by arith
  from p have "x \<le> n div 10" "n div 10 < 10 * x" by arith+
  then have "10 ^ m \<le> n div 10" "n div 10 < 10 ^ Suc m"
    by (simp_all add: x_def)
  from Suc.IH[OF this] big show ?case
    by (simp add: toString_large)
qed

lemma length_toString_le:
  "n < 10 ^ Suc m \<Longrightarrow> length (toString n) \<le> Suc m"
proof (induction m arbitrary: n)
  case 0
  then show ?case by (simp add: toString_small)
next
  case (Suc m)
  show ?case
  proof (cases "n < 10")
    case True
    then show ?thesis by (simp add: toString_small)
  next
    case False
    define x :: nat where "x = 10 ^ m"
    from Suc.prems have "n < 10 * (10 * x)" by (simp add: x_def)
    then have "n div 10 < 10 * x" by arith
    then have "n div 10 < 10 ^ Suc m" by (simp add: x_def)
    from Suc.IH[OF this] False show ?thesis
      by (simp add: toString_large)
  qed
qed

subsection \<open>The loop that looks for an unused name\<close>

lemma suffixedName_inj:
  assumes "suffixedName b c1 = suffixedName b c2"
      and "length (toString c1) = length (toString c2)"
  shows "c1 = c2"
proof -
  from assms have "toString c1 = toString c2" by simp
  then show ?thesis by (rule toString_inj)
qed

lemma length_suffixedName:
  "length (toString c) \<le> devNameMaxLength \<Longrightarrow> length (suffixedName b c) \<le> devNameMaxLength"
  by simp

lemma free_counter_in_block:
  assumes "finite S" and "card S \<le> n" and "n < 9 * 10 ^ m"
  shows "\<exists>c. 10 ^ m \<le> c \<and> c \<le> 10 ^ m + n \<and> suffixedName b c \<notin> S"
proof (rule ccontr)
  assume "\<not> ?thesis"
  then have sub: "suffixedName b ` {10 ^ m .. 10 ^ m + n} \<subseteq> S" by auto
  have len: "length (toString c) = Suc m" if "c \<in> {10 ^ m .. 10 ^ m + n}" for c
  proof -
    from that assms(3) have "10 ^ m \<le> c" "c < 10 ^ Suc m" by simp_all
    then show ?thesis by (rule length_toString)
  qed
  have "inj_on (suffixedName b) {10 ^ m .. 10 ^ m + n}"
  proof (rule inj_onI)
    fix c1 c2 assume "c1 \<in> {10 ^ m .. 10 ^ m + n}" "c2 \<in> {10 ^ m .. 10 ^ m + n}"
      and eq: "suffixedName b c1 = suffixedName b c2"
    then have "length (toString c1) = length (toString c2)" by (simp add: len)
    with eq show "c1 = c2" by (rule suffixedName_inj)
  qed
  then have "card (suffixedName b ` {10 ^ m .. 10 ^ m + n}) = Suc n"
    by (simp add: card_image)
  moreover have "card (suffixedName b ` {10 ^ m .. 10 ^ m + n}) \<le> card S"
    using sub assms(1) by (rule card_mono[rotated])
  ultimately show False using assms(2) by simp
qed

lemma devNameLoop_free:
  "newDevName \<notin> takenNames this \<Longrightarrow> devNameLoop this b newDevName c = Some newDevName"
  by (subst devNameLoop.simps) (simp add: matchAtaRuleDeveloperName_def)

lemma devNameLoop_step:
  "newDevName \<in> takenNames this \<Longrightarrow>
   devNameLoop this b newDevName c = devNameLoop this b (suffixedName b c) (c + 1)"
  by (subst devNameLoop.simps) (simp add: matchAtaRuleDeveloperName_def)

lemma devNameLoop_found:
  assumes "suffixedName b (c + k) \<notin> takenNames this"
      and "\<forall>j<k. suffixedName b (c + j) \<in> takenNames this"
      and "newDevName \<in> takenNames this"
  shows "devNameLoop this b newDevName c = Some (suffixedName b (c + k))"
  using assms
proof (induction k arbitrary: c newDevName)
  case 0
  then show ?case
    by (simp add: devNameLoop_step devNameLoop_free)
next
  case (Suc k)
  from Suc.prems(2) have here: "suffixedName b c \<in> takenNames this"
    by (metis add.right_neutral zero_less_Suc)
  have free: "suffixedName b (c + 1 + k) \<notin> takenNames this"
    using Suc.prems(1) by simp
  have taken: "\<forall>j<k. suffixedName b (c + 1 + j) \<in> takenNames this"
  proof (intro allI impI)
    fix j assume "j < k"
    then have "Suc j < Suc k" by simp
    with Suc.prems(2) have "suffixedName b (c + Suc j) \<in> takenNames this" by blast
    then show "suffixedName b (c + 1 + j) \<in> takenNames this" by simp
  qed
  have "devNameLoop this b newDevName c = devNameLoop this b (suffixedName b c) (c + 1)"
    using Suc.prems(3) by (rule devNameLoop_step)
  also have "\<dots> = Some (suffixedName b (c + 1 + k))"
    using free taken here by (rule Suc.IH)
  finally show ?case by simp
qed

lemma free_counter_exists:
  "\<exists>c. 2 \<le> c \<and> suffixedName b c \<notin> takenNames this"
proof -
  let ?n = "card (takenNames this)"
  have "?n < 2 ^ ?n" by (rule less_exp)
  also have "(2::nat) ^ ?n \<le> 10 ^ ?n" by (rule power_mono) simp_all
  also have "(10::nat) ^ ?n \<le> 9 * 10 ^ Suc ?n" by simp
  finally have "?n < 9 * 10 ^ Suc ?n" .
  from free_counter_in_block[OF _ le_refl this, of b]
  obtain c where c: "10 ^ Suc ?n \<le> c" "suffixedName b c \<notin> takenNames this"
    by auto
  have "(1::nat) \<le> 10 ^ ?n" by simp
  then have "(2::nat) \<le> 10 ^ Suc ?n" by simp
  with c(1) have "2 \<le> c" by linarith
  with c(2) show ?thesis by blast
qed

lemma devNameLoop_chosen:
  "devNameLoop this b b 2 = Some (chosenName this b)"
proof (cases "b \<in> takenNames this")
  case False
  then show ?thesis by (simp add: devNameLoop_free)
next
  case True
  let ?P = "\<lambda>c. 2 \<le> c \<and> suffixedName b c \<notin> takenNames this"
  let ?L = "LEAST c. ?P c"
  from free_counter_exists obtain c0 where "?P c0" by blast
  then have L: "?P ?L" by (rule LeastI)
  have min: "\<not> ?P c" if "c < ?L" for c
    using that by (rule not_less_Least)
  define k where "k = ?L - 2"
  from L have "2 \<le> ?L" by (rule conjunct1)
  then have Lk: "?L = 2 + k" unfolding k_def by linarith
  have "suffixedName b (2 + k) \<notin> takenNames this"
    using L Lk by simp
  moreover have "\<forall>j<k. suffixedName b (2 + j) \<in> takenNames this"
  proof (intro allI impI)
    fix j assume "j < k"
    then have "2 + j < ?L" using Lk by simp
    from min[OF this] show "suffixedName b (2 + j) \<in> takenNames this" by simp
  qed
  ultimately have "devNameLoop this b b 2 = Some (suffixedName b (2 + k))"
    using True by (rule devNameLoop_found)
  with True Lk show ?thesis by simp
qed

lemma chosenName_fresh: "chosenName this b \<notin> takenNames this"
proof (cases "b \<in> takenNames this")
  case False
  then show ?thesis by simp
next
  case True
  from free_counter_exists obtain c0
    where "2 \<le> c0 \<and> suffixedName b c0 \<notin> takenNames this" by blast
  then have "2 \<le> (LEAST c. 2 \<le> c \<and> suffixedName b c \<notin> takenNames this) \<and>
             suffixedName b (LEAST c. 2 \<le> c \<and> suffixedName b c \<notin> takenNames this)
               \<notin> takenNames this"
    by (rule LeastI)
  with True show ?thesis by simp
qed

lemma chosenName_length:
  assumes "length b \<le> devNameMaxLength"
      and "length (ataRuleDevNamesByRuleId this) < 2 ^ 32"
  shows "length (chosenName this b) \<le> devNameMaxLength"
proof (cases "b \<in> takenNames this")
  case False
  with assms(1) show ?thesis by simp
next
  case True
  let ?P = "\<lambda>c. 2 \<le> c \<and> suffixedName b c \<notin> takenNames this"
  let ?n = "length (ataRuleDevNamesByRuleId this)"
  have "card (takenNames this) \<le> ?n"
    by (metis card_length length_map)
  moreover from assms(2) have "?n < 9 * 10 ^ 10" by simp
  ultimately obtain c where c: "10 ^ 10 \<le> c" "c \<le> 10 ^ 10 + ?n"
      "suffixedName b c \<notin> takenNames this"
    using free_counter_in_block[of "takenNames this" ?n 10 b] by auto
  then have "?P c" by simp
  then have "(LEAST c. ?P c) \<le> c" by (rule Least_le)
  with c(2) assms(2) have "(LEAST c. ?P c) < 10 ^ Suc 10" by simp
  then have "length (toString (LEAST c. ?P c)) \<le> Suc 10"
    by (rule length_toString_le)
  then have "length (toString (LEAST c. ?P c)) \<le> devNameMaxLength"
    by (simp add: devNameMaxLength_def)
  then have "length (suffixedName b (LEAST c. ?P c)) \<le> devNameMaxLength"
    by (rule length_suffixedName)
  with True show ?thesis by simp
qed

lemma addAtaRuleDeveloperName_chosen:
  "addAtaRuleDeveloperName createDeveloperName r this =
     Some (chosenName this (createDeveloperName (Name r)),
           this\<lparr>ataRuleDevNamesByRuleId :=
             AList.update (Id_rule r) (chosenName this (createDeveloperName (Name r)))
               (ataRuleDevNamesByRuleId this)\<rparr>)"
  unfolding addAtaRuleDeveloperName_def Let_def devNameLoop_chosen by simp

lemma update_values:
  "set (map snd (AList.update k v al)) \<subseteq> insert v (set (map snd al))"
  by (induction al) auto

lemma update_distinct_values:
  assumes "distinct (map snd al)" and "v \<notin> set (map snd al)"
  shows "distinct (map snd (AList.update k v al))"
  using assms
proof (induction al)
  case Nil
  then show ?case by simp
next
  case (Cons a al)
  show ?case
  proof (cases "fst a = k")
    case True
    with Cons.prems show ?thesis by simp
  next
    case False
    from Cons.prems have "distinct (map snd (AList.update k v al))"
      by (intro Cons.IH) simp_all
    moreover from Cons.prems update_values[of k v al]
    have "snd a \<notin> set (map snd (AList.update k v al))" by auto
    ultimately show ?thesis using False by simp
  qed
qed

lemma length_update_le: "length (AList.update k v al) \<le> Suc (length al)"
  by (induction al) auto

lemma transformAtaRule_names:
  "\<exists>this'. transformAtaRule createDeveloperName r this = Some this' \<and>
           ataRuleDevNamesByRuleId this' =
             AList.update (Id_rule r) (chosenName this (createDeveloperName (Name r)))
               (ataRuleDevNamesByRuleId this)"
  by (simp add: transformAtaRule_def Let_def addAtaRuleDeveloperName_chosen
        addAtaRuleToTerritoryGroup_def)

lemma transformAtaRules_names:
  assumes "distinct (map snd (ataRuleDevNamesByRuleId this))"
  shows "\<exists>this'. transformAtaRules createDeveloperName rs this = Some this' \<and>
           distinct (map snd (ataRuleDevNamesByRuleId this')) \<and>
           fst ` set (ataRuleDevNamesByRuleId this') =
             fst ` set (ataRuleDevNamesByRuleId this) \<union> Id_rule ` set rs \<and>
           ((\<forall>s. length (createDeveloperName s) \<le> devNameMaxLength) \<and>
            (\<forall>n \<in> takenNames this. length n \<le> devNameMaxLength) \<and>
            length (ataRuleDevNamesByRuleId this) + length rs < 2 ^ 32
            \<longrightarrow> (\<forall>n \<in> takenNames this'. length n \<le> devNameMaxLength))"
  using assms
proof (induction rs arbitrary: this)
  case Nil
  then show ?case by simp
next
  case (Cons r rs)
  let ?b = "createDeveloperName (Name r)"
  let ?names = "ataRuleDevNamesByRuleId this"
  from transformAtaRule_names[of createDeveloperName r this]
  obtain this1 where t1: "transformAtaRule createDeveloperName r this = Some this1"
    and n1: "ataRuleDevNamesByRuleId this1 = AList.update (Id_rule r) (chosenName this ?b) ?names"
    by blast
  have d1: "distinct (map snd (ataRuleDevNamesByRuleId this1))"
    unfolding n1 using Cons.prems chosenName_fresh[where b = "?b" and this = this]
    by (intro update_distinct_values) simp_all
  from Cons.IH[OF d1] obtain this' where
    r: "transformAtaRules createDeveloperName rs this1 = Some this'"
    and d: "distinct (map snd (ataRuleDevNamesByRuleId this'))"
    and k: "fst ` set (ataRuleDevNamesByRuleId this') =
              fst ` set (ataRuleDevNamesByRuleId this1) \<union> Id_rule ` set rs"
    and l: "(\<forall>s. length (createDeveloperName s) \<le> devNameMaxLength) \<and>
            (\<forall>n \<in> takenNames this1. length n \<le> devNameMaxLength) \<and>
            length (ataRuleDevNamesByRuleId this1) + length rs < 2 ^ 32
            \<longrightarrow> (\<forall>n \<in> takenNames this'. length n \<le> devNameMaxLength)"
    by blast
  have keys: "fst ` set (ataRuleDevNamesByRuleId this') =
                fst ` set ?names \<union> Id_rule ` set (r # rs)"
    unfolding k n1 by (auto simp: dom_update)
  have lens: "\<forall>n \<in> takenNames this'. length n \<le> devNameMaxLength"
    if c: "\<forall>s. length (createDeveloperName s) \<le> devNameMaxLength"
    and o: "\<forall>n \<in> takenNames this. length n \<le> devNameMaxLength"
    and b: "length ?names + length (r # rs) < 2 ^ 32"
  proof -
    from b have "length ?names < 2 ^ 32" by simp
    with c have "length (chosenName this ?b) \<le> devNameMaxLength"
      by (intro chosenName_length) simp_all
    with o update_values[of "Id_rule r" "chosenName this ?b" ?names]
    have "\<forall>n \<in> takenNames this1. length n \<le> devNameMaxLength"
      unfolding n1 by blast
    moreover from b length_update_le[of "Id_rule r" "chosenName this ?b" ?names]
    have "length (ataRuleDevNamesByRuleId this1) + length rs < 2 ^ 32"
      unfolding n1 by simp
    ultimately show ?thesis using l c by blast
  qed
  from t1 r have "transformAtaRules createDeveloperName (r # rs) this = Some this'"
    by simp
  with d keys lens show ?case by blast
qed

text \<open>
  C5, as stated, fails in one clause: the first rule with a given slug does not always
  keep the base name.  Of three rules named X, X and X2, the second receives X2, and the
  third, the first whose slug is X2, finds X2 taken and receives X22.
\<close>

theorem first_rule_of_slug_suffixed:
  "map (\<lambda>r. slugEx (Name r)) (ataRuleRecords parsedXX2) = [''X'', ''X'', ''X2''] \<and>
   ataRuleDevNamesByRuleId parsedXX2 = [] \<and>
   map_option ataRuleDevNamesByRuleId (transformCsvFiles slugEx parsedXX2) =
     Some [(''0OH1'', ''X''), (''0OH2'', ''X2''), (''0OH3'', ''X22'')]"
  by code_simp

text \<open>
  C5, amended.  Start from a context that has assigned no name yet, as the constructor
  leaves it.  Then \<open>transformCsvFiles\<close> returns; in the context it returns, the names
  assigned to the rules are pairwise distinct and every rule of the extract has one; and
  each of them has at most 80 characters, provided \<open>createDeveloperName\<close> never yields
  more than 80 characters and the extract has fewer than \<open>2^32\<close> rules (the bound on
  the length of a JavaScript array, under which the counter stays in the range where a
  double counts exactly).  Moreover, in any context, \<open>addAtaRuleDeveloperName\<close>
  returns and assigns \<open>chosenName\<close>: the base name when no name assigned before equals
  it, and otherwise the base cut to 80 minus the length of the suffix, followed by the
  suffix, for the first counter from 2 on that gives an unused name; the name it assigns
  is not among those taken before.
\<close>

theorem developer_names_distinct:
  assumes "ataRuleDevNamesByRuleId this = []"
  shows "(\<exists>this'. transformCsvFiles createDeveloperName this = Some this' \<and>
            distinct (map snd (ataRuleDevNamesByRuleId this')) \<and>
            fst ` set (ataRuleDevNamesByRuleId this') = Id_rule ` set (ataRuleRecords this) \<and>
            ((\<forall>s. length (createDeveloperName s) \<le> devNameMaxLength) \<and>
             length (ataRuleRecords this) < 2 ^ 32
             \<longrightarrow> (\<forall>n \<in> takenNames this'. length n \<le> devNameMaxLength)))
       \<and> addAtaRuleDeveloperName createDeveloperName r that =
           Some (chosenName that (createDeveloperName (Name r)),
                 that\<lparr>ataRuleDevNamesByRuleId :=
                   AList.update (Id_rule r) (chosenName that (createDeveloperName (Name r)))
                     (ataRuleDevNamesByRuleId that)\<rparr>)
       \<and> chosenName that (createDeveloperName (Name r)) \<notin> takenNames that"
proof -
  let ?this1 = "this\<lparr>territoryRecordsById :=
                  foldl (\<lambda>m t. AList.update (Id_terr t) t m)
                        (territoryRecordsById this) (territoryRecords this)\<rparr>"
  have "distinct (map snd (ataRuleDevNamesByRuleId ?this1))"
    using assms by simp
  from transformAtaRules_names[OF this, of createDeveloperName "ataRuleRecords this"] assms
  have "\<exists>this'. transformCsvFiles createDeveloperName this = Some this' \<and>
            distinct (map snd (ataRuleDevNamesByRuleId this')) \<and>
            fst ` set (ataRuleDevNamesByRuleId this') = Id_rule ` set (ataRuleRecords this) \<and>
            ((\<forall>s. length (createDeveloperName s) \<le> devNameMaxLength) \<and>
             length (ataRuleRecords this) < 2 ^ 32
             \<longrightarrow> (\<forall>n \<in> takenNames this'. length n \<le> devNameMaxLength))"
    by (simp add: transformCsvFiles_def)
  with addAtaRuleDeveloperName_chosen[of createDeveloperName r that]
       chosenName_fresh[where b = "createDeveloperName (Name r)" and this = that]
  show ?thesis by blast
qed

theorem developer_names_distinct_witness:
  "ataRuleDevNamesByRuleId parsedEx = [] \<and>
   (\<forall>s. length (slugEx s) \<le> devNameMaxLength) \<and>
   length (ataRuleRecords parsedEx) < 2 ^ 32 \<and>
   (\<exists>this'. transformCsvFiles slugEx parsedEx = Some this' \<and>
      ataRuleDevNamesByRuleId this' = [(''0OH1'', ''East_Region''), (''0OH2'', ''East_Region2'')] \<and>
      distinct (map snd (ataRuleDevNamesByRuleId this')) \<and>
      (\<forall>n \<in> takenNames this'. length n \<le> devNameMaxLength))"
proof -
  have h1: "ataRuleDevNamesByRuleId parsedEx = []" by code_simp
  have h2: "\<forall>s. length (slugEx s) \<le> devNameMaxLength"
    by (simp add: slugEx_def devNameMaxLength_def)
  have "length (ataRuleRecords parsedEx) = 2" by code_simp
  then have h3: "length (ataRuleRecords parsedEx) < 2 ^ 32" by simp
  have e: "map_option ataRuleDevNamesByRuleId (transformCsvFiles slugEx parsedEx) =
             Some [(''0OH1'', ''East_Region''), (''0OH2'', ''East_Region2'')]"
    by code_simp
  from developer_names_distinct[OF h1, of slugEx] h2 h3
  obtain this' where t: "transformCsvFiles slugEx parsedEx = Some this'"
    and d: "distinct (map snd (ataRuleDevNamesByRuleId this'))"
    and l: "\<forall>n \<in> takenNames this'. length n \<le> devNameMaxLength"
    by blast
  from e t have "ataRuleDevNamesByRuleId this' =
                   [(''0OH1'', ''East_Region''), (''0OH2'', ''East_Region2'')]"
    by simp
  with h1 h2 h3 t d l show ?thesis by blast
qed

subsection \<open>Claims about the sharing rules\<close>

lemma owner_rules_singleton:
  "parseOwnerRules (JsObject [(''sharingOwnerRules'', JsObject ps)]) =
   parseOwnerRules (JsObject [(''sharingOwnerRules'', JsArray [JsObject ps])])"
  by (simp add: parseOwnerRules_def andThen_def)

lemma territory_rules_singleton:
  "parseTerritoryRules (JsObject [(''sharingTerritoryRules'', JsObject ps)]) =
   parseTerritoryRules (JsObject [(''sharingTerritoryRules'', JsArray [JsObject ps])])"
  by (simp add: parseTerritoryRules_def andThen_def)

lemma criteria_rules_singleton_throws:
  "parseCriteriaRules (JsObject [(''sharingCriteriaRules'', JsObject ps)]) = Inl NativeTypeError"
  by (simp add: parseCriteriaRules_def andThen_def)

text \<open>
  C6 does not hold of the code.  The owner and territory branches do treat one rule like
  a list of one (\<open>owner_rules_singleton\<close>, \<open>territory_rules_singleton\<close>), and so does
  the loop over the criteria items.  The criteria branch does not: its normalisation
  assigns the value to itself, and the loop then runs over an object, which is not
  iterable (\<open>criteria_rules_singleton_throws\<close>).  For the document whose only criteria
  rule is \<open>ruleEast\<close> the parser throws a TypeError, while for the list that holds this
  one rule the same branch yields the parsed rule, and for the document with the rule
  twice it yields both; the owner branch yields the same for the single rule as for the
  list of one, and parses the document whose only owner rule is \<open>ruleEast\<close>.
\<close>

theorem single_criteria_rule_throws:
  "parseSharingRulesFromXml compactForm oneCriteriaRuleXml = Inl NativeTypeError \<and>
   parseCriteriaRules (JsObject [(''sharingCriteriaRules'', ruleEast)]) = Inl NativeTypeError \<and>
   parseCriteriaRules (JsObject [(''sharingCriteriaRules'', JsArray [ruleEast])]) =
     Inr [\<lparr> fullName = JsString ''East_Accounts'', accessLevel = JsString ''Edit'',
            accountSettings = \<lparr>caseAccessLevel = JsUndefined, contactAccessLevel = JsUndefined,
                                opportunityAccessLevel = JsUndefined\<rparr>,
            description = JsUndefined, label = JsUndefined,
            sharedFrom = None,
            sharedTo = Some \<lparr>groupType = JsString ''territory'', groupMembers = JsString ''East''\<rparr>,
            booleanFilter = JsUndefined,
            criteriaItems = Some [\<lparr>field = JsString ''BillingState'',
                                    operation = JsString ''equals'',
                                    value_item = JsString ''NY'',
                                    valueField = JsUndefined\<rparr>] \<rparr>] \<and>
   map fullName (case parseSharingRulesFromXml compactForm twoCriteriaRulesXml of
                   Inr rules \<Rightarrow> sharingCriteriaRules rules | Inl e \<Rightarrow> []) =
     [JsString ''East_Accounts'', JsString ''East_Accounts''] \<and>
   parseOwnerRules (JsObject [(''sharingOwnerRules'', ruleEast)]) =
     parseOwnerRules (JsObject [(''sharingOwnerRules'', JsArray [ruleEast])]) \<and>
   map fullName (case parseSharingRulesFromXml compactForm oneOwnerRuleXml of
                   Inr rules \<Rightarrow> sharingOwnerRules rules | Inl e \<Rightarrow> []) =
     [JsString ''East_Accounts'']"
  by code_simp

subsection \<open>Claims about validate\<close>

lemma parseCsvFiles_success:
  assumes "parseCsvFiles files this = (None, this')"
  shows "\<exists>a r i t u.
           accountShareCsv files = Inr a \<and> ataRuleCsv files = Inr r \<and>
           ataRuleItemCsv files = Inr i \<and> territoryCsv files = Inr t \<and>
           userTerritoryCsv files = Inr u \<and>
           this' = this\<lparr>accountShareRecords := a, ataRuleRecords := r, ataRuleItemRecords := i,
                         territoryRecords := t, userTerritoryRecords := u\<rparr>"
  using assms
  by (auto simp: parseCsvFiles_def Let_def split: sum.splits)

lemma parseXmlFiles_records:
  assumes "parseXmlFiles xml2js files this = (r, this')"
  shows "accountShareRecords this' = accountShareRecords this \<and>
         ataRuleRecords this' = ataRuleRecords this \<and>
         ataRuleItemRecords this' = ataRuleItemRecords this \<and>
         territoryRecords this' = territoryRecords this \<and>
         userTerritoryRecords this' = userTerritoryRecords this"
  using assms
  by (auto simp: parseXmlFiles_def Let_def split: sum.splits if_splits prod.splits option.splits)

lemma validate_store:
  "\<exists>c. snd (validate xml2js report files store) = store @ [c]"
  by (auto simp: validate_def split: prod.splits option.splits)

text \<open>
  C9.  \<open>validate\<close> leaves every context object that existed before the call as it was
  and parses into one new object.  When it returns a report, the five extracts were all
  parsed, each status flag is true exactly when the expected count of its kind in the
  analysis report equals the number of records parsed for that kind, and so the flags are
  all true exactly when the five counts all agree.  The witness is the example of the
  specification with ten territories expected and eight extracted: only the territory
  flag is false.
\<close>

theorem validate_status:
  "(\<exists>c. snd (validate xml2js report files store) = store @ [c]) \<and>
   (validate xml2js report files store = (Inr v, store') \<longrightarrow>
    (\<exists>a r i t u c.
           accountShareCsv files = Inr a \<and> ataRuleCsv files = Inr r \<and>
           ataRuleItemCsv files = Inr i \<and> territoryCsv files = Inr t \<and>
           userTerritoryCsv files = Inr u \<and>
           territoryExtractionIsValid (status v) =
             (territoryRecordCount (tm1RecordCounts report) = int (length t)) \<and>
           ataRuleExtractionIsValid (status v) =
             (ataRuleRecordCount (tm1RecordCounts report) = int (length r)) \<and>
           ataRuleItemExtractionIsValid (status v) =
             (ataRuleItemRecordCount (tm1RecordCounts report) = int (length i)) \<and>
           userTerritoryExtractionIsValid (status v) =
             (userTerritoryRecordCount (tm1RecordCounts report) = int (length u)) \<and>
           accountShareExtractionIsValid (status v) =
             (accountShareRecordCount (tm1RecordCounts report) = int (length a)) \<and>
           ((territoryExtractionIsValid (status v) \<and> ataRuleExtractionIsValid (status v) \<and>
             ataRuleItemExtractionIsValid (status v) \<and> userTerritoryExtractionIsValid (status v) \<and>
             accountShareExtractionIsValid (status v))
            = (territoryRecordCount (tm1RecordCounts report) = int (length t) \<and>
               ataRuleRecordCount (tm1RecordCounts report) = int (length r) \<and>
               ataRuleItemRecordCount (tm1RecordCounts report) = int (length i) \<and>
               userTerritoryRecordCount (tm1RecordCounts report) = int (length u) \<and>
               accountShareRecordCount (tm1RecordCounts report) = int (length a))) \<and>
           store' = store @ [c] \<and>
           extractedTerritoryRecords (records v) = territoryRecords c \<and>
           territoryRecords c = t))"
proof (intro conjI impI)
  show "\<exists>c. snd (validate xml2js report files store) = store @ [c]"
    by (rule validate_store)
next
  assume assms: "validate xml2js report files store = (Inr v, store')"
  from assms obtain c1 where p1: "parseCsvFiles files newTm1Context = (None, c1)"
    by (auto simp: validate_def split: prod.splits option.splits)
  from assms p1 obtain c where p2: "parseXmlFiles xml2js files c1 = (None, c)"
    by (auto simp: validate_def split: prod.splits option.splits)
  from parseCsvFiles_success[OF p1] obtain a r i t u where
    f: "accountShareCsv files = Inr a" "ataRuleCsv files = Inr r" "ataRuleItemCsv files = Inr i"
       "territoryCsv files = Inr t" "userTerritoryCsv files = Inr u"
    and c1: "c1 = newTm1Context\<lparr>accountShareRecords := a, ataRuleRecords := r, ataRuleItemRecords := i,
                         territoryRecords := t, userTerritoryRecords := u\<rparr>"
    by blast
  from parseXmlFiles_records[OF p2] c1
  have rec: "accountShareRecords c = a" "ataRuleRecords c = r" "ataRuleItemRecords c = i"
       "territoryRecords c = t" "userTerritoryRecords c = u"
    by simp_all
  from assms p1 p2 have v: "status v =
       \<lparr> territoryExtractionIsValid =
           (territoryRecordCount (tm1RecordCounts report) = int (length t)),
         ataRuleExtractionIsValid =
           (ataRuleRecordCount (tm1RecordCounts report) = int (length r)),
         ataRuleItemExtractionIsValid =
           (ataRuleItemRecordCount (tm1RecordCounts report) = int (length i)),
         userTerritoryExtractionIsValid =
           (userTerritoryRecordCount (tm1RecordCounts report) = int (length u)),
         accountShareExtractionIsValid =
           (accountShareRecordCount (tm1RecordCounts report) = int (length a)) \<rparr>"
    and s: "store' = store @ [c]"
    and e: "extractedTerritoryRecords (records v) = territoryRecords c"
    by (auto simp: validate_def rec)
  show "\<exists>a r i t u c.
           accountShareCsv files = Inr a \<and> ataRuleCsv files = Inr r \<and>
           ataRuleItemCsv files = Inr i \<and> territoryCsv files = Inr t \<and>
           userTerritoryCsv files = Inr u \<and>
           territoryExtractionIsValid (status v) =
             (territoryRecordCount (tm1RecordCounts report) = int (length t)) \<and>
           ataRuleExtractionIsValid (status v) =
             (ataRuleRecordCount (tm1RecordCounts report) = int (length r)) \<and>
           ataRuleItemExtractionIsValid (status v) =
             (ataRuleItemRecordCount (tm1RecordCounts report) = int (length i)) \<and>
           userTerritoryExtractionIsValid (status v) =
             (userTerritoryRecordCount (tm1RecordCounts report) = int (length u)) \<and>
           accountShareExtractionIsValid (status v) =
             (accountShareRecordCount (tm1RecordCounts report) = int (length a)) \<and>
           ((territoryExtractionIsValid (status v) \<and> ataRuleExtractionIsValid (status v) \<and>
             ataRuleItemExtractionIsValid (status v) \<and> userTerritoryExtractionIsValid (status v) \<and>
             accountShareExtractionIsValid (status v))
            = (territoryRecordCount (tm1RecordCounts report) = int (length t) \<and>
               ataRuleRecordCount (tm1RecordCounts report) = int (length r) \<and>
               ataRuleItemRecordCount (tm1RecordCounts report) = int (length i) \<and>
               userTerritoryRecordCount (tm1RecordCounts report) = int (length u) \<and>
               accountShareRecordCount (tm1RecordCounts report) = int (length a))) \<and>
           store' = store @ [c] \<and>
           extractedTerritoryRecords (records v) = territoryRecords c \<and>
           territoryRecords c = t"
    using f rec(4) s e by (simp add: v)
qed

theorem validate_status_witness:
  "(case fst (validate compactForm reportEx filesEx [newTm1Context]) of
      Inr v \<Rightarrow> status v =
        \<lparr> territoryExtractionIsValid = False, ataRuleExtractionIsValid = True,
          ataRuleItemExtractionIsValid = True, userTerritoryExtractionIsValid = True,
          accountShareExtractionIsValid = True \<rparr>
    | Inl e \<Rightarrow> False) \<and>
   take 1 (snd (validate compactForm reportEx filesEx [newTm1Context])) = [newTm1Context]"
proof -
  let ?call = "validate compactForm reportEx filesEx [newTm1Context]"
  have "\<not> isl (fst ?call)" by code_simp
  then obtain v where v: "fst ?call = Inr v"
    by (cases "fst ?call") auto
  then have call: "?call = (Inr v, snd ?call)"
    by (simp add: prod_eq_iff)
  from validate_status[of compactForm reportEx filesEx "[newTm1Context]" v "snd ?call"] call
  obtain a r i t u c where
      f: "accountShareCsv filesEx = Inr a" "ataRuleCsv filesEx = Inr r"
         "ataRuleItemCsv filesEx = Inr i" "territoryCsv filesEx = Inr t"
         "userTerritoryCsv filesEx = Inr u"
    and s: "territoryExtractionIsValid (status v) =
             (territoryRecordCount (tm1RecordCounts reportEx) = int (length t))"
           "ataRuleExtractionIsValid (status v) =
             (ataRuleRecordCount (tm1RecordCounts reportEx) = int (length r))"
           "ataRuleItemExtractionIsValid (status v) =
             (ataRuleItemRecordCount (tm1RecordCounts reportEx) = int (length i))"
           "userTerritoryExtractionIsValid (status v) =
             (userTerritoryRecordCount (tm1RecordCounts reportEx) = int (length u))"
           "accountShareExtractionIsValid (status v) =
             (accountShareRecordCount (tm1RecordCounts reportEx) = int (length a))"
    and st: "snd ?call = [newTm1Context] @ [c]"
    by blast
  from f have len: "length a = 0" "length r = 2" "length i = 3" "length t = 8" "length u = 1"
    by (auto simp: filesEx_def)
  have "status v =
        \<lparr> territoryExtractionIsValid = False, ataRuleExtractionIsValid = True,
          ataRuleItemExtractionIsValid = True, userTerritoryExtractionIsValid = True,
          accountShareExtractionIsValid = True \<rparr>"
    using s by (intro ValidationStatus.equality) (simp_all add: len reportEx_def)
  with v st show ?thesis by simp
qed

section \<open>Properties of Tm1Analysis\<close>

lemma checkPrepared_undefined: "lookupMember ''checkPrepared'' = None"
  by code_simp

text \<open>
  C10.  An object the constructor returns has \<open>_prepared\<close> set.  No member named
  \<open>checkPrepared\<close> exists (\<open>checkPrepared_undefined\<close>), so whatever the methods that
  do exist would do, reading any accessor other than \<open>filePaths\<close> and \<open>prepared\<close>
  throws the TypeError of a call of \<open>undefined\<close>, on every instance; it neither returns
  the stored value nor throws a readiness error.  The two unguarded accessors return
  what is stored.
\<close>

theorem accessors_throw:
  "(newTm1Analysis aliasOrUsername tm1AnalyzeFilePaths defaultDelay dateNow = Inr made
      \<longrightarrow> m_prepared made)
   \<and> (accessor \<noteq> get_filePaths \<and> accessor \<noteq> get_prepared
      \<longrightarrow> readAccessor run accessor this = Inl NativeTypeError)
   \<and> readAccessor run get_filePaths this = Inr (m_filePaths this)
   \<and> readAccessor run get_prepared this = Inr (JsBool (m_prepared this))"
proof -
  have c: "checkedRead run this stored = Inl NativeTypeError" for stored
    by (simp add: checkedRead_def callMethod_def checkPrepared_undefined andThen_def)
  have "m_prepared made"
    if "newTm1Analysis aliasOrUsername tm1AnalyzeFilePaths defaultDelay dateNow = Inr made"
    using that by (auto simp: newTm1Analysis_def split: if_splits)
  moreover have "readAccessor run accessor this = Inl NativeTypeError"
    if "accessor \<noteq> get_filePaths \<and> accessor \<noteq> get_prepared"
    using that by (cases accessor) (simp_all add: c)
  ultimately show ?thesis by simp
qed

theorem accessors_throw_witness:
  "newTm1Analysis (JsString ''tm1-org'')
       (JsObject [(''baseDirectory'', JsString ''/tmp/tm''),
                  (''tm1AnalysisReportPath'', JsString ''/tmp/tm/tm1-analysis.json'')])
       JsUndefined ''Mon Jan 06 2020'' = Inr analysisEx \<and>
   m_prepared analysisEx \<and>
   readAccessor (\<lambda>name this. None) get_territoryRecordCount analysisEx = Inl NativeTypeError \<and>
   readAccessor (\<lambda>name this. None) get_orgInfo analysisEx = Inl NativeTypeError"
proof -
  have m: "newTm1Analysis (JsString ''tm1-org'')
       (JsObject [(''baseDirectory'', JsString ''/tmp/tm''),
                  (''tm1AnalysisReportPath'', JsString ''/tmp/tm/tm1-analysis.json'')])
       JsUndefined ''Mon Jan 06 2020'' = Inr analysisEx"
    by (simp add: analysisEx_def newTm1Analysis_def)
  have d: "get_territoryRecordCount \<noteq> get_filePaths \<and> get_territoryRecordCount \<noteq> get_prepared"
          "get_orgInfo \<noteq> get_filePaths \<and> get_orgInfo \<noteq> get_prepared"
    by simp_all
  from accessors_throw[of "JsString ''tm1-org''" _ JsUndefined "''Mon Jan 06 2020''" analysisEx
         get_territoryRecordCount "\<lambda>name this. None" analysisEx] m d(1)
  have "m_prepared analysisEx"
    and "readAccessor (\<lambda>name this. None) get_territoryRecordCount analysisEx = Inl NativeTypeError"
    by blast+
  moreover from accessors_throw[of _ _ _ _ _ get_orgInfo "\<lambda>name this. None" analysisEx] d(2)
  have "readAccessor (\<lambda>name this. None) get_orgInfo analysisEx = Inl NativeTypeError"
    by blast
  ultimately show ?thesis using m by simp
qed

end
